theory Spec2Isabelle
  imports Main
begin

section \<open>Strings as the handlers use them\<close>

text \<open>
  The application compares its "HH:MM" wall-clock strings with the relational operators
  of the language (\<^verbatim>\<open>block.endTime <= currentTime\<close>), which on two strings compare
  code unit by code unit, a proper prefix being smaller. A string is a \<^typ>\<open>string\<close>
  here (one \<^typ>\<open>char\<close> per code unit, which covers the ASCII text the clock and the
  labels of this development use).
\<close>

fun strLess :: "string \<Rightarrow> string \<Rightarrow> bool" where
  "strLess [] [] = False"
| "strLess [] (y # ys) = True"
| "strLess (x # xs) [] = False"
| "strLess (x # xs) (y # ys) =
     (if (of_char x :: nat) < of_char y then True
      else if (of_char y :: nat) < of_char x then False
      else strLess xs ys)"

text \<open>\<^verbatim>\<open>a <= b\<close> on strings is evaluated as the negation of \<^verbatim>\<open>b < a\<close>.\<close>

definition strLessEq :: "string \<Rightarrow> string \<Rightarrow> bool" where
  "strLessEq a b = (\<not> strLess b a)"

definition strGreater :: "string \<Rightarrow> string \<Rightarrow> bool" where
  "strGreater a b = strLess b a"

text \<open>\<^verbatim>\<open>s.startsWith(p)\<close> and \<^verbatim>\<open>s.includes(p)\<close>.\<close>

fun startsWith :: "string \<Rightarrow> string \<Rightarrow> bool" where
  "startsWith s [] = True"
| "startsWith [] (p # ps) = False"
| "startsWith (c # cs) (p # ps) = (c = p \<and> startsWith cs ps)"

fun str_includes :: "string \<Rightarrow> string \<Rightarrow> bool" where
  "str_includes [] p = (p = [])"
| "str_includes (c # cs) p = (startsWith (c # cs) p \<or> str_includes cs p)"

text \<open>\<^verbatim>\<open>s.toLowerCase()\<close> on ASCII letters; every other character is left as it is.\<close>

definition lowerChar :: "char \<Rightarrow> char" where
  "lowerChar c =
     (if (65::nat) \<le> of_char c \<and> of_char c \<le> (90::nat)
      then char_of (of_char c + (32::nat)) else c)"

definition toLowerCase :: "string \<Rightarrow> string" where
  "toLowerCase s = map lowerChar s"

text \<open>Decimal rendering of a number inside a template string.\<close>

fun showNat :: "nat \<Rightarrow> string" where
  "showNat n =
     (if n < 10 then [char_of (48 + n)]
      else showNat (n div 10) @ [char_of (48 + n mod 10)])"

declare showNat.simps [simp del]

text \<open>\<^verbatim>\<open>s.padStart(2, '0')\<close>\<close>

definition padStart2 :: "string \<Rightarrow> string" where
  "padStart2 s = replicate (2 - length s) (CHR ''0'') @ s"

section \<open>Data model (types.ts)\<close>

datatype Priority = NonNegotiable | High | Normal

datatype EnergyLevel = EHigh | EMedium | ELow

datatype LifeDomain = Academic | Skill | Health | Spirituality | Routine

datatype BlockType = Work | Break | Fixed | RoutineBlock

record Task =
  task_id :: string
  title :: string
  isFixed :: bool
  fixedTime :: "string option"
  durationMinutes :: int
  completed :: bool
  task_priority :: Priority
  task_energyLevel :: EnergyLevel
  task_domain :: LifeDomain

record TimeBlock =
  block_id :: string
  startTime :: string
  endTime :: string
  taskId :: "string option"
  label :: string
  block_type :: BlockType
  isCompleted :: bool
  energyLevel :: "EnergyLevel option"
  priority :: "Priority option"
  domain :: "LifeDomain option"

text \<open>The undo snapshot \<^verbatim>\<open>previousVersion\<close> of a day.\<close>

record Snapshot =
  pv_tasks :: "Task list"
  pv_schedule :: "TimeBlock list"
  pv_explanation :: string

record DayData =
  tasks :: "Task list"
  schedule :: "TimeBlock list"
  explanation :: string
  date :: string
  distractions :: "string list option"
  previousVersion :: "Snapshot option"

text \<open>
  \<^verbatim>\<open>Partial<DayData>\<close>: a field is either absent from the object (\<open>None\<close>) or named in
  it with a value. The two optional fields can be named with the value \<^verbatim>\<open>undefined\<close>
  (undo writes \<^verbatim>\<open>previousVersion: undefined\<close>), hence the nested option.
\<close>

record DayUpdate =
  u_tasks :: "Task list option"
  u_schedule :: "TimeBlock list option"
  u_explanation :: "string option"
  u_date :: "string option"
  u_distractions :: "string list option option"
  u_previousVersion :: "Snapshot option option"

definition noUpdate :: DayUpdate where
  "noUpdate = \<lparr> u_tasks = None, u_schedule = None, u_explanation = None, u_date = None,
      u_distractions = None, u_previousVersion = None \<rparr>"

text \<open>The object spread \<^verbatim>\<open>{ ...rec, ...updates }\<close>.\<close>

definition spread :: "DayData \<Rightarrow> DayUpdate \<Rightarrow> DayData" where
  "spread r u =
     \<lparr> tasks = (case u_tasks u of None \<Rightarrow> tasks r | Some v \<Rightarrow> v),
       schedule = (case u_schedule u of None \<Rightarrow> schedule r | Some v \<Rightarrow> v),
       explanation = (case u_explanation u of None \<Rightarrow> explanation r | Some v \<Rightarrow> v),
       date = (case u_date u of None \<Rightarrow> date r | Some v \<Rightarrow> v),
       distractions = (case u_distractions u of None \<Rightarrow> distractions r | Some v \<Rightarrow> v),
       previousVersion =
         (case u_previousVersion u of None \<Rightarrow> previousVersion r | Some v \<Rightarrow> v) \<rparr>"

section \<open>Day Store (App component)\<close>

type_synonym Days = "string \<rightharpoonup> DayData"

text \<open>
  \<^verbatim>\<open>getDayData\<close> reads the \<^verbatim>\<open>days\<close> value of the render the handler belongs to and
  synthesises the empty record for a date that has none.
\<close>

definition getDayData :: "Days \<Rightarrow> string \<Rightarrow> DayData" where
  "getDayData days d =
     (case days d of
        Some r \<Rightarrow> r
      | None \<Rightarrow> \<lparr> tasks = [], schedule = [], explanation = [], date = d,
                 distractions = Some [], previousVersion = None \<rparr>)"

text \<open>
  \<^verbatim>\<open>updateDayData(date, updates)\<close> hands \<^verbatim>\<open>setDays\<close> the updater
  \<^verbatim>\<open>prev => ({ ...prev, [date]: { ...getDayData(date), ...updates } })\<close>. The record that
  is merged is read through \<^verbatim>\<open>getDayData\<close> from \<open>days\<close>, the store of the handler's
  render; the other dates are taken from \<open>prev\<close>, the store the updater is applied to.
  The two stores are the same only when no other update was applied between the render
  the handler belongs to and the moment the updater runs.
\<close>

definition updateDayData :: "Days \<Rightarrow> string \<Rightarrow> DayUpdate \<Rightarrow> Days \<Rightarrow> Days" where
  "updateDayData days d updates prev = prev(d \<mapsto> spread (getDayData days d) updates)"

section \<open>Plan Generation Gateway (geminiService.ts)\<close>

text \<open>
  What the generative service sends back is outside the program. Its reply is an input
  of the model: \<open>GatewayFailed\<close> stands for every way the \<^verbatim>\<open>try\<close> block of
  \<^verbatim>\<open>adaptiveReplan\<close> can throw (network error, empty text, text that does not parse),
  \<open>GatewayReplied\<close> carries the parsed object
  \<^verbatim>\<open>{ tasks: Task[], schedule: Omit<TimeBlock, 'id' | 'isCompleted'>[], explanation }\<close>.
\<close>

record RawBlock =
  raw_startTime :: string
  raw_endTime :: string
  raw_taskId :: "string option"
  raw_label :: string
  raw_type :: BlockType
  raw_energyLevel :: "EnergyLevel option"
  raw_priority :: "Priority option"
  raw_domain :: "LifeDomain option"

record GatewayData =
  g_tasks :: "Task list"
  g_schedule :: "RawBlock list"
  g_explanation :: string

datatype GatewayReply = GatewayFailed | GatewayReplied GatewayData

record ReplanResult =
  r_tasks :: "Task list"
  r_schedule :: "TimeBlock list"
  r_explanation :: string

text \<open>
  Everything a handler reads from outside the component while it runs: the wall clock
  (\<^verbatim>\<open>getCurrentTimeStr()\<close>), the gateway's reply, and \<^verbatim>\<open>Date.now()\<close> as read for the
  \<open>i\<close>-th returned task and the \<open>i\<close>-th returned block.
\<close>

record Outside =
  clock :: string
  reply :: GatewayReply
  taskStamp :: "nat \<Rightarrow> nat"
  blockStamp :: "nat \<Rightarrow> nat"

text \<open>\<^verbatim>\<open>id: t.id ? t.id : `new-task-${Date.now()}-${i}`\<close>\<close>

definition finalTask :: "(nat \<Rightarrow> nat) \<Rightarrow> nat \<times> Task \<Rightarrow> Task" where
  "finalTask stamp p =
     (case p of (i, t) \<Rightarrow>
        t\<lparr> task_id := (if task_id t \<noteq> [] then task_id t
                        else ''new-task-'' @ showNat (stamp i) @ ''-'' @ showNat i) \<rparr>)"

text \<open>The title match that recovers a link the gateway dropped.\<close>

definition titleMatches :: "RawBlock \<Rightarrow> Task \<Rightarrow> bool" where
  "titleMatches b t =
     (str_includes (toLowerCase (raw_label b)) (toLowerCase (title t)) \<or>
      str_includes (toLowerCase (title t)) (toLowerCase (raw_label b)))"

definition finalBlock :: "Task list \<Rightarrow> (nat \<Rightarrow> nat) \<Rightarrow> nat \<times> RawBlock \<Rightarrow> TimeBlock" where
  "finalBlock finalTasks stamp p =
     (case p of (i, b) \<Rightarrow>
        let linkedTaskId = raw_taskId b;
            taskExists = list_ex (\<lambda>t. Some (task_id t) = linkedTaskId) finalTasks;
            falsy = (linkedTaskId = None \<or> linkedTaskId = Some []);
            linkedTaskId' =
              (if (falsy \<or> \<not> taskExists) \<and> raw_type b = Work
               then (case find (titleMatches b) finalTasks of
                       Some matching \<Rightarrow> Some (task_id matching)
                     | None \<Rightarrow> linkedTaskId)
               else linkedTaskId)
        in \<lparr> block_id = ''replan-block-'' @ showNat (stamp i) @ ''-'' @ showNat i,
             startTime = raw_startTime b,
             endTime = raw_endTime b,
             taskId = (if linkedTaskId' = Some [] then None else linkedTaskId'),
             label = raw_label b,
             block_type = raw_type b,
             isCompleted = False,
             energyLevel = raw_energyLevel b,
             priority = raw_priority b,
             domain = (case raw_domain b of None \<Rightarrow> Some Routine | Some d \<Rightarrow> Some d) \<rparr>)"

text \<open>
  \<^verbatim>\<open>adaptiveReplan(tasks, dayStartTime, dayEndTime, context)\<close>. The window and the context
  only go into the prompt; the result is computed from the reply, and the \<^verbatim>\<open>catch\<close>
  branch returns the caller's tasks, an empty schedule and the failure text.
\<close>

definition adaptiveReplan ::
  "Task list \<Rightarrow> string \<Rightarrow> string \<Rightarrow> string \<Rightarrow> Outside \<Rightarrow> ReplanResult" where
  "adaptiveReplan ts dayStartTime dayEndTime context w =
     (case reply w of
        GatewayReplied data \<Rightarrow>
          let finalTasks = map (finalTask (taskStamp w)) (enumerate 0 (g_tasks data));
              finalSchedule =
                map (finalBlock finalTasks (blockStamp w)) (enumerate 0 (g_schedule data))
          in \<lparr> r_tasks = finalTasks, r_schedule = finalSchedule,
               r_explanation = g_explanation data \<rparr>
      | GatewayFailed \<Rightarrow>
          \<lparr> r_tasks = ts, r_schedule = [],
            r_explanation = ''Replan failed. Please try again.'' \<rparr>)"

section \<open>Handlers of the App component\<close>

text \<open>
  The values a handler closes over: the store and the selected date of its render, and
  the local calendar date computed at that render. The screen mode and the
  \<^verbatim>\<open>isGenerating\<close> flag never reach the store and are left out.
\<close>

record Render =
  days :: Days
  selectedDate :: string
  todayStr :: string

datatype Alert = OnlyToday

text \<open>
  \<^verbatim>\<open>getCurrentTimeStr\<close> renders the hours and minutes of the local clock, each padded
  to two characters. Its value at the moment a handler reads it is the \<open>clock\<close> of
  \<open>Outside\<close>.
\<close>

definition getCurrentTimeStr :: "nat \<Rightarrow> nat \<Rightarrow> string" where
  "getCurrentTimeStr hours minutes =
     padStart2 (showNat hours) @ '':'' @ padStart2 (showNat minutes)"

subsection \<open>Adaptive replan\<close>

text \<open>The body of the \<^verbatim>\<open>forEach\<close> of step 1: what one block adds to \<^verbatim>\<open>pastBlocks\<close>.\<close>

definition truncated :: "string \<Rightarrow> TimeBlock \<Rightarrow> TimeBlock" where
  "truncated currentTime block =
     block\<lparr> block_id := block_id block @ ''-truncated'',
            endTime := currentTime,
            label := (if str_includes (label block) ''(Partial)'' then label block
                      else label block @ '' (Partial)''),
            isCompleted := isCompleted block,
            domain := domain block \<rparr>"

definition pastPart :: "string \<Rightarrow> TimeBlock \<Rightarrow> TimeBlock list" where
  "pastPart currentTime block =
     (if strLessEq (endTime block) currentTime then [block]
      else if strLess (startTime block) currentTime \<and> strGreater (endTime block) currentTime
      then [truncated currentTime block]
      else [])"

definition pastBlocks :: "string \<Rightarrow> TimeBlock list \<Rightarrow> TimeBlock list" where
  "pastBlocks currentTime sched = foldl (\<lambda>acc block. acc @ pastPart currentTime block) [] sched"

definition handleReplan :: "Render \<Rightarrow> Outside \<Rightarrow> string option \<Rightarrow> Days \<Rightarrow> Alert + Days" where
  "handleReplan r w customContext prev =
     (if selectedDate r \<noteq> todayStr r then Inl OnlyToday
      else
        let currentTime = clock w;
            currentData = getDayData (days r) (todayStr r);
            snapshot = \<lparr> pv_tasks = tasks currentData, pv_schedule = schedule currentData,
                         pv_explanation = explanation currentData \<rparr>;
            past = pastBlocks currentTime (schedule currentData);
            replanContext =
              (case customContext of
                 None \<Rightarrow> ''Replanning for remainder of day.''
               | Some c \<Rightarrow> if c = [] then ''Replanning for remainder of day.'' else c);
            result = adaptiveReplan (tasks currentData) currentTime ''23:59'' replanContext w
        in Inr (updateDayData (days r) (todayStr r)
                 \<lparr> u_tasks = Some (r_tasks result),
                   u_schedule = Some (past @ r_schedule result),
                   u_explanation = Some (r_explanation result),
                   u_date = None,
                   u_distractions = None,
                   u_previousVersion = Some (Some snapshot) \<rparr> prev))"

subsection \<open>Undo\<close>

definition handleUndo :: "Render \<Rightarrow> Days \<Rightarrow> Days" where
  "handleUndo r prev =
     (let currentData = getDayData (days r) (selectedDate r)
      in case previousVersion currentData of
           Some pv \<Rightarrow>
             updateDayData (days r) (selectedDate r)
               \<lparr> u_tasks = Some (pv_tasks pv),
                 u_schedule = Some (pv_schedule pv),
                 u_explanation = Some (pv_explanation pv),
                 u_date = None,
                 u_distractions = None,
                 u_previousVersion = Some None \<rparr> prev
         | None \<Rightarrow> prev)"

subsection \<open>Task completion\<close>

text \<open>
  The callback of \<^verbatim>\<open>currentData.tasks.map\<close> flips the matching task and, as a side
  effect, assigns \<^verbatim>\<open>isNowCompleted\<close>; the flag starts as \<^verbatim>\<open>false\<close> and the last matching
  task decides it.
\<close>

definition toggleTasks :: "string \<Rightarrow> Task list \<Rightarrow> Task list" where
  "toggleTasks tid ts =
     map (\<lambda>t. if task_id t = tid then t\<lparr> completed := \<not> completed t \<rparr> else t) ts"

definition isNowCompleted :: "string \<Rightarrow> Task list \<Rightarrow> bool" where
  "isNowCompleted tid ts =
     foldl (\<lambda>flag t. if task_id t = tid then \<not> completed t else flag) False ts"

text \<open>The callback of the \<^verbatim>\<open>flatMap\<close> that runs when the task was completed today.\<close>

definition completeBlock :: "string \<Rightarrow> string \<Rightarrow> TimeBlock \<Rightarrow> TimeBlock list" where
  "completeBlock tid currentTime block =
     (if taskId block = Some tid then
        (if strGreater currentTime (startTime block) \<and> strLess currentTime (endTime block)
         then
           [ block\<lparr> endTime := currentTime, isCompleted := True,
                    label := label block @ '' (Done)'' \<rparr>,
             \<lparr> block_id = block_id block @ ''-buffer'',
               startTime = currentTime,
               endTime = endTime block,
               taskId = None,
               label = ''Efficiency Bonus'',
               block_type = Break,
               isCompleted = False,
               energyLevel = Some ELow,
               priority = None,
               domain = Some Routine \<rparr> ]
         else [ block\<lparr> isCompleted := True \<rparr> ])
      else [block])"

definition markBlocks :: "string \<Rightarrow> bool \<Rightarrow> TimeBlock list \<Rightarrow> TimeBlock list" where
  "markBlocks tid v sched =
     map (\<lambda>b. if taskId b = Some tid then b\<lparr> isCompleted := v \<rparr> else b) sched"

definition handleToggleTask :: "Render \<Rightarrow> Outside \<Rightarrow> string \<Rightarrow> Days \<Rightarrow> Days" where
  "handleToggleTask r w tid prev =
     (let currentData = getDayData (days r) (selectedDate r);
          newTasks = toggleTasks tid (tasks currentData);
          nowCompleted = isNowCompleted tid (tasks currentData);
          newSchedule =
            (if selectedDate r = todayStr r then
               (if nowCompleted
                then concat (map (completeBlock tid (clock w)) (schedule currentData))
                else markBlocks tid False (schedule currentData))
             else
               (if nowCompleted
                then markBlocks tid True (schedule currentData)
                else markBlocks tid False (schedule currentData)))
      in updateDayData (days r) (selectedDate r)
           (noUpdate\<lparr> u_tasks := Some newTasks, u_schedule := Some newSchedule \<rparr>) prev)"

subsection \<open>Distractions\<close>

definition handleUpdateDistractions :: "Render \<Rightarrow> string list \<Rightarrow> Days \<Rightarrow> Days" where
  "handleUpdateDistractions r newDistractions prev =
     updateDayData (days r) (selectedDate r)
       (noUpdate\<lparr> u_distractions := Some (Some newDistractions) \<rparr>) prev"

section \<open>Time arithmetic (FocusView.tsx)\<close>

text \<open>
  \<^verbatim>\<open>timeStr.split(':')\<close>: the pieces between the colons (always at least one piece).
\<close>

fun splitColon :: "string \<Rightarrow> string list" where
  "splitColon [] = [[]]"
| "splitColon (c # cs) =
     (if c = CHR '':'' then [] # splitColon cs
      else (case splitColon cs of
              p # ps \<Rightarrow> (c # p) # ps
            | [] \<Rightarrow> [[c]]))"

text \<open>
  \<^verbatim>\<open>Number(s)\<close> on a string of decimal digits is its decimal value, and \<open>0\<close> on the
  empty string. \<open>None\<close> stands for every other string: \<^verbatim>\<open>NaN\<close>, and the signed,
  fractional, exponent, hexadecimal and blank-padded literals that no clock string
  contains and that this development does not evaluate.
\<close>

definition isDigit :: "char \<Rightarrow> bool" where
  "isDigit c = ((48::nat) \<le> of_char c \<and> of_char c \<le> (57::nat))"

definition digitVal :: "char \<Rightarrow> nat" where
  "digitVal c = of_char c - 48"

definition Number :: "string \<Rightarrow> nat option" where
  "Number s =
     (if list_all isDigit s then Some (foldl (\<lambda>acc c. 10 * acc + digitVal c) 0 s)
      else None)"

text \<open>
  \<^verbatim>\<open>const [h, m] = timeStr.split(':').map(Number); return h * 60 + m;\<close> A missing
  second piece is \<^verbatim>\<open>undefined\<close> and the sum is \<^verbatim>\<open>NaN\<close>.
\<close>

definition getMinutes :: "string \<Rightarrow> nat option" where
  "getMinutes timeStr =
     (case map Number (splitColon timeStr) of
        Some h # Some m # rest \<Rightarrow> Some (h * 60 + m)
      | _ \<Rightarrow> None)"

text \<open>
  A well-formed clock string, in the words of the specification: two-digit hours 00-23,
  a colon, two-digit minutes 00-59. \<open>hoursOf\<close> and \<open>minutesOf\<close> are the numbers its
  digits denote, \<open>minuteOfDay\<close> the minute offset \<open>HH * 60 + MM\<close>.
\<close>

definition hoursOf :: "string \<Rightarrow> nat" where
  "hoursOf s = 10 * digitVal (s ! 0) + digitVal (s ! 1)"

definition minutesOf :: "string \<Rightarrow> nat" where
  "minutesOf s = 10 * digitVal (s ! 3) + digitVal (s ! 4)"

definition minuteOfDay :: "string \<Rightarrow> nat" where
  "minuteOfDay s = hoursOf s * 60 + minutesOf s"

definition wfTime :: "string \<Rightarrow> bool" where
  "wfTime s =
     (length s = 5 \<and> isDigit (s ! 0) \<and> isDigit (s ! 1) \<and> s ! 2 = CHR '':'' \<and>
      isDigit (s ! 3) \<and> isDigit (s ! 4) \<and> hoursOf s \<le> 23 \<and> minutesOf s \<le> 59)"

section \<open>A sample day\<close>

text \<open>
  Concrete data on which the theorems below are instantiated: two tasks, three blocks
  (one elapsed, one in progress at 09:45, one still to come), and the store of one day.
\<close>

definition exToday :: string where
  "exToday = ''2025-03-10''"

definition taskReport :: Task where
  "taskReport = \<lparr> task_id = ''t1'', title = ''Write report'', isFixed = False,
     fixedTime = None, durationMinutes = 90, completed = False, task_priority = High,
     task_energyLevel = EHigh, task_domain = Academic \<rparr>"

definition taskGym :: Task where
  "taskGym = \<lparr> task_id = ''t2'', title = ''Gym'', isFixed = True,
     fixedTime = Some ''11:00'', durationMinutes = 60, completed = True,
     task_priority = Normal, task_energyLevel = EMedium, task_domain = Health \<rparr>"

definition blockReview :: TimeBlock where
  "blockReview = \<lparr> block_id = ''b1'', startTime = ''08:00'', endTime = ''09:00'',
     taskId = None, label = ''Morning review'', block_type = RoutineBlock,
     isCompleted = True, energyLevel = Some ELow, priority = None, domain = Some Routine \<rparr>"

definition blockReport :: TimeBlock where
  "blockReport = \<lparr> block_id = ''b2'', startTime = ''09:00'', endTime = ''10:30'',
     taskId = Some ''t1'', label = ''Write report'', block_type = Work,
     isCompleted = False, energyLevel = Some EHigh, priority = Some High,
     domain = Some Academic \<rparr>"

definition blockGym :: TimeBlock where
  "blockGym = \<lparr> block_id = ''b3'', startTime = ''11:00'', endTime = ''12:00'',
     taskId = Some ''t2'', label = ''Gym'', block_type = Fixed,
     isCompleted = True, energyLevel = Some EMedium, priority = None,
     domain = Some Health \<rparr>"

definition exDay :: DayData where
  "exDay = \<lparr> tasks = [taskReport, taskGym],
     schedule = [blockReview, blockReport, blockGym],
     explanation = ''Initial plan'', date = exToday,
     distractions = Some [''check phone''], previousVersion = None \<rparr>"

definition exDays :: Days where
  "exDays = Map.empty(exToday \<mapsto> exDay)"

definition exRender :: Render where
  "exRender = \<lparr> days = exDays, selectedDate = exToday, todayStr = exToday \<rparr>"

text \<open>The outside world at 09:45 when the gateway call fails.\<close>

definition exFailed :: Outside where
  "exFailed = \<lparr> clock = ''09:45'', reply = GatewayFailed,
     taskStamp = (\<lambda>i. 1700), blockStamp = (\<lambda>i. 1701) \<rparr>"

text \<open>
  The same instant when the gateway answers: the old tasks, a new task without an id, a
  work block that lost its task link and a break.
\<close>

definition taskRead :: Task where
  "taskRead = \<lparr> task_id = [], title = ''Read'', isFixed = False,
     fixedTime = None, durationMinutes = 30, completed = False, task_priority = Normal,
     task_energyLevel = ELow, task_domain = Skill \<rparr>"

definition rawReport :: RawBlock where
  "rawReport = \<lparr> raw_startTime = ''09:45'', raw_endTime = ''11:00'', raw_taskId = None,
     raw_label = ''Write Report (continued)'', raw_type = Work,
     raw_energyLevel = Some EHigh, raw_priority = None, raw_domain = Some Academic \<rparr>"

definition rawBreak :: RawBlock where
  "rawBreak = \<lparr> raw_startTime = ''11:00'', raw_endTime = ''11:15'', raw_taskId = None,
     raw_label = ''Stretch'', raw_type = Break,
     raw_energyLevel = None, raw_priority = None, raw_domain = None \<rparr>"

definition exReplied :: Outside where
  "exReplied = \<lparr> clock = ''09:45'',
     reply = GatewayReplied \<lparr> g_tasks = [taskReport, taskGym, taskRead],
               g_schedule = [rawReport, rawBreak],
               g_explanation = ''Moved the report.'' \<rparr>,
     taskStamp = (\<lambda>i. 1700), blockStamp = (\<lambda>i. 1701) \<rparr>"

text \<open>The record the failed replan of 09:45 leaves for the sample day.\<close>

definition failedDay :: DayData where
  "failedDay = \<lparr> tasks = [taskReport, taskGym],
     schedule = [blockReview,
                 blockReport\<lparr> block_id := ''b2-truncated'', endTime := ''09:45'',
                              label := ''Write report (Partial)'' \<rparr>],
     explanation = ''Replan failed. Please try again.'', date = exToday,
     distractions = Some [''check phone''],
     previousVersion = Some \<lparr> pv_tasks = [taskReport, taskGym],
                              pv_schedule = [blockReview, blockReport, blockGym],
                              pv_explanation = ''Initial plan'' \<rparr> \<rparr>"

text \<open>The report block when its label already carries the completion mark.\<close>

definition blockDone :: TimeBlock where
  "blockDone = \<lparr> block_id = ''b2'', startTime = ''09:00'', endTime = ''10:30'',
     taskId = Some ''t1'', label = ''Write report (Done)'', block_type = Work,
     isCompleted = False, energyLevel = Some EHigh, priority = Some High,
     domain = Some Academic \<rparr>"

definition doneRender :: Render where
  "doneRender =
     \<lparr> days = Map.empty(exToday \<mapsto> exDay\<lparr> schedule := [blockReview, blockDone, blockGym] \<rparr>),
       selectedDate = exToday, todayStr = exToday \<rparr>"

text \<open>
  The sample day after a replan removed the gym task from the task list: the completed
  gym block of the past still names it.
\<close>

definition orphanDay :: DayData where
  "orphanDay = exDay\<lparr> tasks := [taskReport] \<rparr>"

definition orphanRender :: Render where
  "orphanRender =
     \<lparr> days = Map.empty(exToday \<mapsto> orphanDay), selectedDate = exToday,
       todayStr = exToday \<rparr>"

text \<open>
  The store after a distraction was noted while the replan started from \<open>exRender\<close>
  was still waiting for the gateway.
\<close>

definition newerDay :: DayData where
  "newerDay = exDay\<lparr> distractions := Some [''check phone'', ''call the bank''] \<rparr>"

definition newerDays :: Days where
  "newerDays = Map.empty(exToday \<mapsto> newerDay)"

section \<open>Facts about the string order, the store and the handlers\<close>

lemma strLess_irrefl: "\<not> strLess s s"
  by (induction s) auto

lemma strLess_le_trans: "\<not> strLess s n \<Longrightarrow> strLess s e \<Longrightarrow> strLess n e"
proof (induction s e arbitrary: n rule: strLess.induct)
  case (2 y ys)
  then show ?case by (cases n) auto
next
  case (4 x xs y ys)
  then show ?case by (cases n) (auto split: if_splits)
qed auto

lemma startsWith_includes: "startsWith s p \<Longrightarrow> str_includes s p"
  by (cases s) (auto elim: startsWith.elims)

lemma str_includes_tail: "str_includes s (c # p) \<Longrightarrow> str_includes s p"
proof (induction s)
  case Nil
  then show ?case by simp
next
  case (Cons x xs)
  from Cons.prems have "startsWith (x # xs) (c # p) \<or> str_includes xs (c # p)" by simp
  then show ?case
  proof
    assume "startsWith (x # xs) (c # p)"
    then have "startsWith xs p" by simp
    then have "str_includes xs p" by (rule startsWith_includes)
    then show ?thesis by simp
  next
    assume "str_includes xs (c # p)"
    then have "str_includes xs p" by (rule Cons.IH)
    then show ?thesis by simp
  qed
qed

subsection \<open>The store\<close>

lemma getDayData_update_same:
  "getDayData (updateDayData ds d u prev) d = spread (getDayData ds d) u"
  by (simp add: updateDayData_def getDayData_def)

lemma updateDayData_other: "d' \<noteq> d \<Longrightarrow> updateDayData ds d u prev d' = prev d'"
  by (simp add: updateDayData_def)

subsection \<open>The past partition\<close>

lemma foldl_append_concat: "foldl (\<lambda>acc x. acc @ f x) a xs = a @ concat (map f xs)"
  by (induction xs arbitrary: a) auto

lemma pastBlocks_concat: "pastBlocks now sched = concat (map (pastPart now) sched)"
  by (simp add: pastBlocks_def foldl_append_concat)

lemma pastPart_ends: "b \<in> set (pastPart now blk) \<Longrightarrow> strLessEq (endTime b) now"
  by (auto simp: pastPart_def truncated_def strLessEq_def strLess_irrefl split: if_splits)

lemma pastBlocks_ends: "list_all (\<lambda>b. strLessEq (endTime b) now) (pastBlocks now sched)"
  by (auto simp: pastBlocks_concat list_all_iff dest: pastPart_ends)

lemma pastPart_elapsed: "strLessEq (endTime b) now \<Longrightarrow> pastPart now b = [b]"
  by (simp add: pastPart_def)

lemma pastPart_straddle:
  "strLess (startTime b) now \<Longrightarrow> strLess now (endTime b) \<Longrightarrow>
   pastPart now b = [truncated now b]"
  by (simp add: pastPart_def strLessEq_def strGreater_def)

lemma pastPart_future:
  "strLess (startTime b) (endTime b) \<Longrightarrow> strLessEq now (startTime b) \<Longrightarrow> pastPart now b = []"
  using strLess_le_trans [of "startTime b" now "endTime b"]
  by (auto simp: pastPart_def strLessEq_def strGreater_def)

subsection \<open>The gateway\<close>

lemma adaptiveReplan_failed:
  "reply w = GatewayFailed \<Longrightarrow>
   adaptiveReplan ts a b c w =
     \<lparr> r_tasks = ts, r_schedule = [], r_explanation = ''Replan failed. Please try again.'' \<rparr>"
  by (simp add: adaptiveReplan_def)

text \<open>The window and the context string only reach the prompt.\<close>

lemma adaptiveReplan_context: "adaptiveReplan ts a b c w = adaptiveReplan ts a' b' c' w"
  by (simp add: adaptiveReplan_def)

lemma map_enumerate_fields: "map (\<lambda>p. f (snd p)) (enumerate n xs) = map f xs"
  by (induction xs arbitrary: n) auto

lemma finalBlock_fields:
  "(startTime (finalBlock ft st p), endTime (finalBlock ft st p), label (finalBlock ft st p),
    block_type (finalBlock ft st p)) =
   (raw_startTime (snd p), raw_endTime (snd p), raw_label (snd p), raw_type (snd p))"
  by (cases p) (simp add: finalBlock_def Let_def)

lemma adaptiveReplan_order:
  assumes "reply w = GatewayReplied data"
  shows "map (\<lambda>b. (startTime b, endTime b, label b, block_type b))
           (r_schedule (adaptiveReplan ts a e c w)) =
         map (\<lambda>b. (raw_startTime b, raw_endTime b, raw_label b, raw_type b)) (g_schedule data)"
proof -
  have "map (\<lambda>b. (startTime b, endTime b, label b, block_type b))
          (r_schedule (adaptiveReplan ts a e c w)) =
        map (\<lambda>p. (raw_startTime (snd p), raw_endTime (snd p), raw_label (snd p),
                   raw_type (snd p))) (enumerate 0 (g_schedule data))"
    using assms by (simp add: adaptiveReplan_def Let_def o_def finalBlock_fields)
  also have "\<dots> = map (\<lambda>b. (raw_startTime b, raw_endTime b, raw_label b, raw_type b))
                    (g_schedule data)"
    by (rule map_enumerate_fields)
  finally show ?thesis .
qed

subsection \<open>The handlers\<close>

lemma handleReplan_today:
  "selectedDate r = todayStr r \<Longrightarrow>
   handleReplan r w ctx prev =
     Inr (updateDayData (days r) (todayStr r)
       \<lparr> u_tasks = Some (r_tasks (adaptiveReplan (tasks (getDayData (days r) (todayStr r)))
                                  (clock w) ''23:59'' [] w)),
         u_schedule = Some (pastBlocks (clock w) (schedule (getDayData (days r) (todayStr r))) @
            r_schedule (adaptiveReplan (tasks (getDayData (days r) (todayStr r)))
                          (clock w) ''23:59'' [] w)),
         u_explanation = Some (r_explanation (adaptiveReplan
                          (tasks (getDayData (days r) (todayStr r))) (clock w) ''23:59'' [] w)),
         u_date = None, u_distractions = None,
         u_previousVersion = Some (Some \<lparr> pv_tasks = tasks (getDayData (days r) (todayStr r)),
            pv_schedule = schedule (getDayData (days r) (todayStr r)),
            pv_explanation = explanation (getDayData (days r) (todayStr r)) \<rparr>) \<rparr> prev)"
  by (simp add: handleReplan_def Let_def adaptiveReplan_def)

lemma handleUndo_snapshot:
  "previousVersion (getDayData (days r) (selectedDate r)) = Some pv \<Longrightarrow>
   handleUndo r prev =
     updateDayData (days r) (selectedDate r)
       \<lparr> u_tasks = Some (pv_tasks pv), u_schedule = Some (pv_schedule pv),
         u_explanation = Some (pv_explanation pv), u_date = None, u_distractions = None,
         u_previousVersion = Some None \<rparr> prev"
  by (simp add: handleUndo_def)

lemma handleUndo_nothing:
  "previousVersion (getDayData (days r) (selectedDate r)) = None \<Longrightarrow> handleUndo r prev = prev"
  by (simp add: handleUndo_def)

lemma handleUndo_record:
  "getDayData (handleUndo r prev) (selectedDate r) =
     (case previousVersion (getDayData (days r) (selectedDate r)) of
        Some pv \<Rightarrow>
          (getDayData (days r) (selectedDate r))
            \<lparr> tasks := pv_tasks pv, schedule := pv_schedule pv,
              explanation := pv_explanation pv, previousVersion := None \<rparr>
      | None \<Rightarrow> getDayData prev (selectedDate r))"
  by (simp add: handleUndo_def getDayData_update_same spread_def split: option.splits)

lemma handleToggleTask_record:
  "getDayData (handleToggleTask r w tid prev) (selectedDate r) =
     (getDayData (days r) (selectedDate r))
       \<lparr> tasks := toggleTasks tid (tasks (getDayData (days r) (selectedDate r))),
         schedule :=
           (if selectedDate r = todayStr r then
              (if isNowCompleted tid (tasks (getDayData (days r) (selectedDate r)))
               then concat (map (completeBlock tid (clock w))
                              (schedule (getDayData (days r) (selectedDate r))))
               else markBlocks tid False (schedule (getDayData (days r) (selectedDate r))))
            else
              (if isNowCompleted tid (tasks (getDayData (days r) (selectedDate r)))
               then markBlocks tid True (schedule (getDayData (days r) (selectedDate r)))
               else markBlocks tid False (schedule (getDayData (days r) (selectedDate r))))) \<rparr>"
  by (simp add: handleToggleTask_def Let_def getDayData_update_same spread_def noUpdate_def)

lemma handleUpdateDistractions_record:
  "getDayData (handleUpdateDistractions r ds prev) (selectedDate r) =
     (getDayData (days r) (selectedDate r))\<lparr> distractions := Some ds \<rparr>"
  by (simp add: handleUpdateDistractions_def getDayData_update_same spread_def noUpdate_def)

lemma completeBlock_split:
  "taskId B = Some tid \<Longrightarrow> strLess (startTime B) now \<Longrightarrow> strLess now (endTime B) \<Longrightarrow>
   completeBlock tid now B =
     [ B\<lparr> endTime := now, isCompleted := True, label := label B @ '' (Done)'' \<rparr>,
       \<lparr> block_id = block_id B @ ''-buffer'', startTime = now, endTime = endTime B,
         taskId = None, label = ''Efficiency Bonus'', block_type = Break,
         isCompleted = False, energyLevel = Some ELow, priority = None,
         domain = Some Routine \<rparr> ]"
  by (simp add: completeBlock_def strGreater_def)

lemma completeBlock_other: "taskId b \<noteq> Some tid \<Longrightarrow> completeBlock tid now b = [b]"
  by (simp add: completeBlock_def)

lemma completeBlock_length:
  "length (completeBlock tid now b) =
     (if taskId b = Some tid \<and> strLess (startTime b) now \<and> strLess now (endTime b)
      then 2 else 1)"
  by (simp add: completeBlock_def strGreater_def)

lemma complete_schedule_length:
  "length (concat (map (completeBlock tid now) sched)) =
     length sched +
     length (filter (\<lambda>b. taskId b = Some tid \<and> strLess (startTime b) now \<and>
                          strLess now (endTime b)) sched)"
  by (induction sched) (simp_all add: completeBlock_length)

lemma toggleTasks_absent: "list_all (\<lambda>t. task_id t \<noteq> tid) ts \<Longrightarrow> toggleTasks tid ts = ts"
  by (induction ts) (simp_all add: toggleTasks_def)

lemma flag_unchanged:
  "list_all (\<lambda>t. task_id t \<noteq> tid) ts \<Longrightarrow>
   foldl (\<lambda>flag t. if task_id t = tid then \<not> completed t else flag) f ts = f"
  by (induction ts arbitrary: f) simp_all

lemma isNowCompleted_absent: "list_all (\<lambda>t. task_id t \<noteq> tid) ts \<Longrightarrow> \<not> isNowCompleted tid ts"
  by (simp add: isNowCompleted_def flag_unchanged)

text \<open>
  The last task with the id decides the flag: it is set when that task was not completed.
\<close>

lemma isNowCompleted_last:
  assumes "task_id t = tid" and "list_all (\<lambda>u. task_id u \<noteq> tid) post"
  shows "isNowCompleted tid (pre @ t # post) = (\<not> completed t)"
  using assms by (simp add: isNowCompleted_def flag_unchanged)

lemma markBlocks_same:
  "list_all (\<lambda>b. taskId b = Some tid \<longrightarrow> isCompleted b = v) sched \<Longrightarrow>
   markBlocks tid v sched = sched"
  by (induction sched) (auto simp: markBlocks_def)

subsection \<open>Clock strings\<close>

lemma wfTime_shape:
  assumes "wfTime s"
  obtains h1 h2 m1 m2 where "s = [h1, h2, CHR '':'', m1, m2]"
    and "isDigit h1" and "isDigit h2" and "isDigit m1" and "isDigit m2"
    and "10 * digitVal h1 + digitVal h2 \<le> 23" and "10 * digitVal m1 + digitVal m2 \<le> 59"
proof -
  from assms have len: "length s = 5" by (simp add: wfTime_def)
  then obtain a b c d e where s: "s = [a, b, c, d, e]"
    by (auto simp: length_Suc_conv eval_nat_numeral)
  with assms show thesis
    by (intro that [of a b d e]) (simp_all add: wfTime_def hoursOf_def minutesOf_def)
qed

lemma isDigit_not_colon: "isDigit c \<Longrightarrow> c \<noteq> CHR '':''"
  by (auto simp: isDigit_def)

lemma isDigit_code: "isDigit c \<Longrightarrow> (of_char c :: nat) = 48 + digitVal c \<and> digitVal c \<le> 9"
  by (auto simp: isDigit_def digitVal_def)

lemma getMinutes_shape:
  assumes "isDigit h1" "isDigit h2" "isDigit m1" "isDigit m2"
  shows "getMinutes [h1, h2, CHR '':'', m1, m2] =
           Some ((10 * digitVal h1 + digitVal h2) * 60 + (10 * digitVal m1 + digitVal m2))"
  using assms by (simp add: getMinutes_def Number_def isDigit_not_colon)

lemma strLess_shape:
  assumes "isDigit a1" "isDigit a2" "isDigit a3" "isDigit a4"
    and "isDigit b1" "isDigit b2" "isDigit b3" "isDigit b4"
    and "10 * digitVal a3 + digitVal a4 \<le> 59" and "10 * digitVal b3 + digitVal b4 \<le> 59"
  shows "strLess [a1, a2, CHR '':'', a3, a4] [b1, b2, CHR '':'', b3, b4] \<longleftrightarrow>
           (10 * digitVal a1 + digitVal a2) * 60 + (10 * digitVal a3 + digitVal a4)
           < (10 * digitVal b1 + digitVal b2) * 60 + (10 * digitVal b3 + digitVal b4)"
proof -
  note c = isDigit_code [OF assms(1)] isDigit_code [OF assms(2)] isDigit_code [OF assms(3)]
    isDigit_code [OF assms(4)] isDigit_code [OF assms(5)] isDigit_code [OF assms(6)]
    isDigit_code [OF assms(7)] isDigit_code [OF assms(8)]
  show ?thesis
    using c assms(9,10) by simp
qed

lemma getMinutes_wf: "wfTime s \<Longrightarrow> getMinutes s = Some (minuteOfDay s)"
proof -
  assume "wfTime s"
  then obtain a1 a2 a3 a4 where s: "s = [a1, a2, CHR '':'', a3, a4]"
    and a: "isDigit a1" "isDigit a2" "isDigit a3" "isDigit a4"
    by (rule wfTime_shape)
  have "minuteOfDay s =
      (10 * digitVal a1 + digitVal a2) * 60 + (10 * digitVal a3 + digitVal a4)"
    by (simp add: s minuteOfDay_def hoursOf_def minutesOf_def)
  then show ?thesis
    unfolding s using a by (simp add: getMinutes_shape)
qed

lemma clock_order:
  assumes "wfTime s" and "wfTime t"
  shows "strLess s t = (minuteOfDay s < minuteOfDay t)"
proof -
  from assms(1) obtain a1 a2 a3 a4 where s: "s = [a1, a2, CHR '':'', a3, a4]"
    and a: "isDigit a1" "isDigit a2" "isDigit a3" "isDigit a4"
    and am: "10 * digitVal a3 + digitVal a4 \<le> 59"
    by (rule wfTime_shape)
  from assms(2) obtain b1 b2 b3 b4 where t: "t = [b1, b2, CHR '':'', b3, b4]"
    and b: "isDigit b1" "isDigit b2" "isDigit b3" "isDigit b4"
    and bm: "10 * digitVal b3 + digitVal b4 \<le> 59"
    by (rule wfTime_shape)
  have hs: "minuteOfDay s =
      (10 * digitVal a1 + digitVal a2) * 60 + (10 * digitVal a3 + digitVal a4)"
    by (simp add: s minuteOfDay_def hoursOf_def minutesOf_def)
  have ht: "minuteOfDay t =
      (10 * digitVal b1 + digitVal b2) * 60 + (10 * digitVal b3 + digitVal b4)"
    by (simp add: t minuteOfDay_def hoursOf_def minutesOf_def)
  show ?thesis
    unfolding hs ht unfolding s t using a b am bm by (rule strLess_shape)
qed

lemma clock_order_le:
  assumes "wfTime s" and "wfTime t"
  shows "strLessEq s t = (minuteOfDay s \<le> minuteOfDay t)"
  unfolding strLessEq_def clock_order [OF assms(2) assms(1)] by auto

text \<open>The clock of the handlers writes well-formed strings.\<close>

lemma char_of_48: "char_of (48::nat) = CHR ''0''"
  by code_simp

lemma digit_char: "k \<le> 9 \<Longrightarrow> isDigit (char_of (48 + k)) \<and> digitVal (char_of (48 + k)) = k"
  by (simp add: isDigit_def digitVal_def)

lemma padStart2_showNat:
  assumes "n < 100"
  shows "padStart2 (showNat n) = [char_of (48 + n div 10), char_of (48 + n mod 10)]"
proof (cases "n < 10")
  case True
  then show ?thesis by (simp add: padStart2_def showNat.simps [of n] char_of_48)
next
  case False
  with assms have "n div 10 < 10" by simp
  with False show ?thesis
    by (simp add: padStart2_def showNat.simps [of n] showNat.simps [of "n div 10"])
qed

lemma getCurrentTimeStr_wf:
  assumes "h < 24" and "m < 60"
  shows "wfTime (getCurrentTimeStr h m) \<and> minuteOfDay (getCurrentTimeStr h m) = h * 60 + m"
proof -
  have h: "h div 10 \<le> 9" "h mod 10 \<le> 9" and m: "m div 10 \<le> 9" "m mod 10 \<le> 9"
    using assms by simp_all
  have s: "getCurrentTimeStr h m =
      [char_of (48 + h div 10), char_of (48 + h mod 10), CHR '':'',
       char_of (48 + m div 10), char_of (48 + m mod 10)]"
    using assms by (simp add: getCurrentTimeStr_def padStart2_showNat)
  show ?thesis
    unfolding s wfTime_def hoursOf_def minutesOf_def minuteOfDay_def
    using assms digit_char [OF h(1)] digit_char [OF h(2)] digit_char [OF m(1)]
      digit_char [OF m(2)]
    by simp
qed

subsection \<open>The sample day, evaluated\<close>

lemma sample_today: "selectedDate exRender = todayStr exRender"
  by (simp add: exRender_def)

lemma sample_todayStr: "todayStr exRender = exToday"
  by (simp add: exRender_def)

lemma sample_current: "getDayData (days exRender) exToday = exDay"
  by (simp add: exRender_def exDays_def getDayData_def)

lemma sample_past:
  "pastBlocks ''09:45'' [blockReview, blockReport, blockGym] =
     [blockReview,
      blockReport\<lparr> block_id := ''b2-truncated'', endTime := ''09:45'',
                   label := ''Write report (Partial)'' \<rparr>]"
  by (simp add: pastBlocks_def pastPart_def truncated_def strLessEq_def strGreater_def
      blockReview_def blockReport_def blockGym_def)

lemma sample_failed_replan:
  "handleReplan exRender exFailed None prev = Inr (prev(exToday \<mapsto> failedDay))"
  by (simp add: handleReplan_today updateDayData_def spread_def getDayData_def
      adaptiveReplan_def exRender_def exFailed_def exDays_def exDay_def failedDay_def
      sample_past)

section \<open>Adaptive replan when the gateway fails\<close>

text \<open>
  C1, as the specification words it: after a failed gateway call the record's tasks,
  schedule, distractions and previousVersion equal their values before the call. The
  sample day refutes it. The replan of 09:45 whose gateway call fails writes back a
  schedule without the gym block of 11:00 and with the report block cut at 09:45, and a
  previousVersion where there was none.
\<close>

theorem replan_failure_changes_record:
  "handleReplan exRender exFailed None exDays = Inr (exDays(exToday \<mapsto> failedDay)) \<and>
   getDayData exDays exToday = exDay \<and>
   schedule exDay = [blockReview, blockReport, blockGym] \<and>
   schedule failedDay =
     [blockReview,
      blockReport\<lparr> block_id := ''b2-truncated'', endTime := ''09:45'',
                   label := ''Write report (Partial)'' \<rparr>] \<and>
   schedule failedDay \<noteq> schedule exDay \<and>
   previousVersion exDay = None \<and>
   previousVersion failedDay \<noteq> previousVersion exDay"
  by (simp add: sample_failed_replan)
     (simp add: exDays_def exDay_def failedDay_def getDayData_def)

text \<open>
  C1, amended. When the gateway call of a replan on today's date fails, the record
  written back differs from the record the replan read in three fields only: the
  schedule is the past partition at the captured time (elapsed blocks as they were, the
  block in progress truncated, the blocks still to come removed), the explanation is the
  failure text, and previousVersion is the snapshot of the tasks, schedule and
  explanation read. Tasks, date and distractions are the ones read.
\<close>

theorem replan_failure_record:
  assumes "selectedDate r = todayStr r" and "reply w = GatewayFailed"
  shows "\<exists>days'. handleReplan r w ctx prev = Inr days' \<and>
           getDayData days' (todayStr r) =
             (getDayData (days r) (todayStr r))
               \<lparr> schedule := pastBlocks (clock w) (schedule (getDayData (days r) (todayStr r))),
                 explanation := ''Replan failed. Please try again.'',
                 previousVersion :=
                   Some \<lparr> pv_tasks = tasks (getDayData (days r) (todayStr r)),
                          pv_schedule = schedule (getDayData (days r) (todayStr r)),
                          pv_explanation = explanation (getDayData (days r) (todayStr r)) \<rparr> \<rparr>"
  using assms
  by (simp add: handleReplan_today adaptiveReplan_failed getDayData_update_same spread_def)

theorem replan_failure_record_witness:
  "selectedDate exRender = todayStr exRender \<and> reply exFailed = GatewayFailed \<and>
   (\<exists>days'. handleReplan exRender exFailed None exDays = Inr days' \<and>
      getDayData days' exToday = failedDay \<and>
      tasks failedDay = tasks exDay \<and> distractions failedDay = distractions exDay)"
proof -
  have rep: "reply exFailed = GatewayFailed"
    by (simp add: exFailed_def)
  from replan_failure_record [OF sample_today rep, of None exDays]
  obtain days' where h: "handleReplan exRender exFailed None exDays = Inr days'"
    and rec: "getDayData days' (todayStr exRender) =
      (getDayData (days exRender) (todayStr exRender))
        \<lparr> schedule := pastBlocks (clock exFailed)
                         (schedule (getDayData (days exRender) (todayStr exRender))),
          explanation := ''Replan failed. Please try again.'',
          previousVersion :=
            Some \<lparr> pv_tasks = tasks (getDayData (days exRender) (todayStr exRender)),
                   pv_schedule = schedule (getDayData (days exRender) (todayStr exRender)),
                   pv_explanation =
                     explanation (getDayData (days exRender) (todayStr exRender)) \<rparr> \<rparr>"
    by blast
  have "getDayData days' exToday = failedDay"
    using rec unfolding sample_todayStr sample_current
    by (simp add: exDay_def exFailed_def failedDay_def sample_past)
  moreover have "tasks failedDay = tasks exDay \<and> distractions failedDay = distractions exDay"
    by (simp add: failedDay_def exDay_def)
  ultimately show ?thesis using h rep sample_today by blast
qed

text \<open>
  C2. When the gateway call fails during a replan on today's date, the tasks of the
  resulting record are exactly the tasks the record had when the replan was called, and
  no future schedule is made up: the gateway's contribution to the schedule is empty, so
  the schedule written back is the past partition alone, every block of which ends at or
  before the captured time.
\<close>

theorem replan_failure_keeps_tasks:
  assumes "selectedDate r = todayStr r" and "reply w = GatewayFailed"
  shows "\<exists>days'. handleReplan r w ctx prev = Inr days' \<and>
           tasks (getDayData days' (todayStr r)) = tasks (getDayData (days r) (todayStr r)) \<and>
           r_schedule (adaptiveReplan (tasks (getDayData (days r) (todayStr r)))
                         (clock w) ''23:59'' c w) = [] \<and>
           schedule (getDayData days' (todayStr r)) =
             pastBlocks (clock w) (schedule (getDayData (days r) (todayStr r))) \<and>
           list_all (\<lambda>b. strLessEq (endTime b) (clock w))
             (schedule (getDayData days' (todayStr r)))"
  using assms
  by (simp add: handleReplan_today adaptiveReplan_failed getDayData_update_same spread_def
      pastBlocks_ends)

theorem replan_failure_keeps_tasks_witness:
  "selectedDate exRender = todayStr exRender \<and> reply exFailed = GatewayFailed \<and>
   (\<exists>days'. handleReplan exRender exFailed None exDays = Inr days' \<and>
      tasks (getDayData days' exToday) = [taskReport, taskGym] \<and>
      schedule (getDayData days' exToday) =
        [blockReview,
         blockReport\<lparr> block_id := ''b2-truncated'', endTime := ''09:45'',
                      label := ''Write report (Partial)'' \<rparr>])"
proof -
  have rep: "reply exFailed = GatewayFailed"
    by (simp add: exFailed_def)
  from replan_failure_keeps_tasks [OF sample_today rep, of None exDays "[]"]
  obtain days' where h: "handleReplan exRender exFailed None exDays = Inr days'"
    and ts: "tasks (getDayData days' (todayStr exRender)) =
       tasks (getDayData (days exRender) (todayStr exRender))"
    and sch: "schedule (getDayData days' (todayStr exRender)) =
       pastBlocks (clock exFailed) (schedule (getDayData (days exRender) (todayStr exRender)))"
    by blast
  from ts sch have "tasks (getDayData days' exToday) = [taskReport, taskGym] \<and>
      schedule (getDayData days' exToday) =
        [blockReview,
         blockReport\<lparr> block_id := ''b2-truncated'', endTime := ''09:45'',
                      label := ''Write report (Partial)'' \<rparr>]"
    unfolding sample_todayStr sample_current
    by (simp add: exDay_def exFailed_def sample_past)
  with h rep sample_today show ?thesis by blast
qed

section \<open>The replan partition\<close>

text \<open>
  C3. A replan on today's date with the time captured once as \<open>clock w\<close> writes back the
  past blocks, in the order the schedule had them, followed by the blocks
  \<^verbatim>\<open>adaptiveReplan\<close> returned, which keep the order (times, label, type) of the gateway's
  reply; nothing is sorted. For each block \<open>b\<close> of the schedule: if it ended at or before
  the captured time it is kept as it is; if the captured time lies strictly inside it,
  it is replaced by one copy whose end is the captured time, whose id has the suffix
  \<^verbatim>\<open>-truncated\<close> and whose label gets the suffix \<^verbatim>\<open> (Partial)\<close> unless the mark
  \<^verbatim>\<open>(Partial)\<close> is already in it, every other field (isCompleted and domain among them)
  being carried over; if it starts at or after the captured time it contributes
  nothing, whatever its completion state. The last case is stated for a block of the
  data model, whose start is before its end.
\<close>

theorem replan_partition:
  assumes "selectedDate r = todayStr r"
  shows "(\<exists>days'. handleReplan r w ctx prev = Inr days' \<and>
            schedule (getDayData days' (todayStr r)) =
              concat (map (pastPart (clock w)) (schedule (getDayData (days r) (todayStr r)))) @
              r_schedule (adaptiveReplan (tasks (getDayData (days r) (todayStr r)))
                            (clock w) ''23:59'' c w)) \<and>
         (\<forall>data. reply w = GatewayReplied data \<longrightarrow>
            map (\<lambda>b. (startTime b, endTime b, label b, block_type b))
                (r_schedule (adaptiveReplan (tasks (getDayData (days r) (todayStr r)))
                               (clock w) ''23:59'' c w)) =
            map (\<lambda>b. (raw_startTime b, raw_endTime b, raw_label b, raw_type b))
                (g_schedule data)) \<and>
         (strLessEq (endTime b) (clock w) \<longrightarrow> pastPart (clock w) b = [b]) \<and>
         (strLess (startTime b) (clock w) \<and> strLess (clock w) (endTime b) \<longrightarrow>
            pastPart (clock w) b =
              [b\<lparr> block_id := block_id b @ ''-truncated'',
                  endTime := clock w,
                  label := (if str_includes (label b) ''(Partial)'' then label b
                            else label b @ '' (Partial)'') \<rparr>] \<and>
            (str_includes (label b) '' (Partial)'' \<longrightarrow>
               map label (pastPart (clock w) b) = [label b])) \<and>
         (strLess (startTime b) (endTime b) \<and> strLessEq (clock w) (startTime b) \<longrightarrow>
            pastPart (clock w) b = [])"
proof (intro conjI allI impI)
  show "\<exists>days'. handleReplan r w ctx prev = Inr days' \<and>
            schedule (getDayData days' (todayStr r)) =
              concat (map (pastPart (clock w)) (schedule (getDayData (days r) (todayStr r)))) @
              r_schedule (adaptiveReplan (tasks (getDayData (days r) (todayStr r)))
                            (clock w) ''23:59'' c w)"
    using assms adaptiveReplan_context [of "tasks (getDayData (days r) (todayStr r))"
        "clock w" "''23:59''" c w "clock w" "''23:59''" "[]"]
    by (simp add: handleReplan_today getDayData_update_same spread_def pastBlocks_concat)
next
  fix data assume "reply w = GatewayReplied data"
  then show "map (\<lambda>b. (startTime b, endTime b, label b, block_type b))
                (r_schedule (adaptiveReplan (tasks (getDayData (days r) (todayStr r)))
                               (clock w) ''23:59'' c w)) =
            map (\<lambda>b. (raw_startTime b, raw_endTime b, raw_label b, raw_type b))
                (g_schedule data)"
    by (rule adaptiveReplan_order)
next
  assume "strLessEq (endTime b) (clock w)"
  then show "pastPart (clock w) b = [b]" by (rule pastPart_elapsed)
next
  assume h: "strLess (startTime b) (clock w) \<and> strLess (clock w) (endTime b)"
  then show "pastPart (clock w) b =
              [b\<lparr> block_id := block_id b @ ''-truncated'',
                  endTime := clock w,
                  label := (if str_includes (label b) ''(Partial)'' then label b
                            else label b @ '' (Partial)'') \<rparr>]"
    by (simp add: pastPart_straddle truncated_def)
  assume "str_includes (label b) '' (Partial)''"
  then have "str_includes (label b) ''(Partial)''" by (rule str_includes_tail)
  with h show "map label (pastPart (clock w) b) = [label b]"
    by (simp add: pastPart_straddle truncated_def)
next
  assume "strLess (startTime b) (endTime b) \<and> strLessEq (clock w) (startTime b)"
  then show "pastPart (clock w) b = []" by (simp add: pastPart_future)
qed

theorem replan_partition_witness:
  "selectedDate exRender = todayStr exRender \<and>
   (\<exists>days'. handleReplan exRender exReplied None exDays = Inr days' \<and>
      map (\<lambda>b. (block_id b, startTime b, endTime b, taskId b, label b))
          (schedule (getDayData days' exToday)) =
        [(''b1'', ''08:00'', ''09:00'', None, ''Morning review''),
         (''b2-truncated'', ''09:00'', ''09:45'', Some ''t1'', ''Write report (Partial)''),
         (''replan-block-1701-0'', ''09:45'', ''11:00'', Some ''t1'',
            ''Write Report (continued)''),
         (''replan-block-1701-1'', ''11:00'', ''11:15'', None, ''Stretch'')]) \<and>
   strLessEq (endTime blockReview) ''09:45'' \<and>
   pastPart ''09:45'' blockReview = [blockReview] \<and>
   strLess (startTime blockReport) ''09:45'' \<and> strLess ''09:45'' (endTime blockReport) \<and>
   pastPart ''09:45'' blockReport =
     [blockReport\<lparr> block_id := ''b2-truncated'', endTime := ''09:45'',
                   label := ''Write report (Partial)'' \<rparr>] \<and>
   strLess (startTime blockGym) (endTime blockGym) \<and>
   strLessEq ''09:45'' (startTime blockGym) \<and> isCompleted blockGym \<and>
   pastPart ''09:45'' blockGym = []"
proof -
  have now: "clock exReplied = ''09:45''"
    by (simp add: exReplied_def)
  have review: "strLessEq (endTime blockReview) ''09:45''"
    by (simp add: blockReview_def strLessEq_def)
  have report: "strLess (startTime blockReport) ''09:45'' \<and> strLess ''09:45'' (endTime blockReport)"
    by (simp add: blockReport_def)
  have gym: "strLess (startTime blockGym) (endTime blockGym) \<and>
      strLessEq ''09:45'' (startTime blockGym)"
    by (simp add: blockGym_def strLessEq_def)
  have gymdone: "isCompleted blockGym"
    by (simp add: blockGym_def)
  note inst = replan_partition [OF sample_today, of exReplied None exDays "[]"]
  have p1: "pastPart ''09:45'' blockReview = [blockReview]"
    using inst [of blockReview] review unfolding now by blast
  have p2: "pastPart ''09:45'' blockReport =
     [blockReport\<lparr> block_id := ''b2-truncated'', endTime := ''09:45'',
                   label := ''Write report (Partial)'' \<rparr>]"
    using inst [of blockReport] report unfolding now by (simp add: blockReport_def)
  have p3: "pastPart ''09:45'' blockGym = []"
    using inst [of blockGym] gym unfolding now by blast
  from inst [of blockGym]
  obtain days' where h: "handleReplan exRender exReplied None exDays = Inr days'"
    and sch: "schedule (getDayData days' (todayStr exRender)) =
        concat (map (pastPart (clock exReplied))
                  (schedule (getDayData (days exRender) (todayStr exRender)))) @
        r_schedule (adaptiveReplan (tasks (getDayData (days exRender) (todayStr exRender)))
                      (clock exReplied) ''23:59'' [] exReplied)"
    by blast
  have new: "map (\<lambda>b. (block_id b, startTime b, endTime b, taskId b, label b))
      (r_schedule (adaptiveReplan [taskReport, taskGym] ''09:45'' ''23:59'' [] exReplied)) =
      [(''replan-block-1701-0'', ''09:45'', ''11:00'', Some ''t1'', ''Write Report (continued)''),
       (''replan-block-1701-1'', ''11:00'', ''11:15'', None, ''Stretch'')]"
    by code_simp
  have "map (\<lambda>b. (block_id b, startTime b, endTime b, taskId b, label b))
          (schedule (getDayData days' exToday)) =
        [(''b1'', ''08:00'', ''09:00'', None, ''Morning review''),
         (''b2-truncated'', ''09:00'', ''09:45'', Some ''t1'', ''Write report (Partial)''),
         (''replan-block-1701-0'', ''09:45'', ''11:00'', Some ''t1'',
            ''Write Report (continued)''),
         (''replan-block-1701-1'', ''11:00'', ''11:15'', None, ''Stretch'')]"
    using sch new unfolding sample_todayStr sample_current now
    by (simp add: exDay_def p1 p2 p3) (simp add: blockReview_def blockReport_def)
  with h have ex: "\<exists>days'. handleReplan exRender exReplied None exDays = Inr days' \<and>
      map (\<lambda>b. (block_id b, startTime b, endTime b, taskId b, label b))
          (schedule (getDayData days' exToday)) =
        [(''b1'', ''08:00'', ''09:00'', None, ''Morning review''),
         (''b2-truncated'', ''09:00'', ''09:45'', Some ''t1'', ''Write report (Partial)''),
         (''replan-block-1701-0'', ''09:45'', ''11:00'', Some ''t1'',
            ''Write Report (continued)''),
         (''replan-block-1701-1'', ''11:00'', ''11:15'', None, ''Stretch'')]"
    by (intro exI [of _ days'] conjI)
  show ?thesis
    using sample_today ex review report [THEN conjunct1] report [THEN conjunct2] p1 p2 p3
      gym [THEN conjunct1] gym [THEN conjunct2] gymdone
    by (intro conjI) assumption+
qed

section \<open>Completing a task today\<close>

text \<open>
  C4. Toggling task \<open>tid\<close> to completed on today's date (the handler's flag
  \<^verbatim>\<open>isNowCompleted\<close> is set: the task is in the list and was not completed) rewrites
  the schedule block by block. A block \<open>B\<close> of that task with the current time strictly
  between its start and its end is replaced by exactly two blocks, in this order: \<open>B\<close>
  itself (same id, same start) with its end set to the current time and isCompleted set
  (its label gets the completion mark), then a buffer block with id
  \<^verbatim>\<open><id of B>-buffer\<close>, from the current time to the end of \<open>B\<close>, labelled
  "Efficiency Bonus", of type break, with no task, not completed, energy low, domain
  Routine. A block of another task (or of none) is left as it is. The schedule grows by
  one block for every block that is split.
\<close>

theorem toggle_complete_splits:
  assumes "selectedDate r = todayStr r"
    and "isNowCompleted tid (tasks (getDayData (days r) (selectedDate r)))"
  shows "schedule (getDayData (handleToggleTask r w tid prev) (selectedDate r)) =
           concat (map (completeBlock tid (clock w))
                     (schedule (getDayData (days r) (selectedDate r)))) \<and>
         (taskId B = Some tid \<and> strLess (startTime B) (clock w) \<and>
            strLess (clock w) (endTime B) \<longrightarrow>
            completeBlock tid (clock w) B =
              [ B\<lparr> endTime := clock w, isCompleted := True,
                   label := label B @ '' (Done)'' \<rparr>,
                \<lparr> block_id = block_id B @ ''-buffer'', startTime = clock w,
                  endTime = endTime B, taskId = None, label = ''Efficiency Bonus'',
                  block_type = Break, isCompleted = False, energyLevel = Some ELow,
                  priority = None, domain = Some Routine \<rparr> ]) \<and>
         (taskId b \<noteq> Some tid \<longrightarrow> completeBlock tid (clock w) b = [b]) \<and>
         length (schedule (getDayData (handleToggleTask r w tid prev) (selectedDate r))) =
           length (schedule (getDayData (days r) (selectedDate r))) +
           length (filter (\<lambda>b. taskId b = Some tid \<and> strLess (startTime b) (clock w) \<and>
                                strLess (clock w) (endTime b))
                     (schedule (getDayData (days r) (selectedDate r))))"
  unfolding handleToggleTask_record using assms
  by (simp add: completeBlock_split completeBlock_other complete_schedule_length)

theorem toggle_complete_splits_witness:
  "selectedDate exRender = todayStr exRender \<and>
   isNowCompleted ''t1'' (tasks (getDayData (days exRender) (selectedDate exRender))) \<and>
   taskId blockReport = Some ''t1'' \<and>
   strLess (startTime blockReport) ''09:45'' \<and> strLess ''09:45'' (endTime blockReport) \<and>
   taskId blockGym \<noteq> Some ''t1'' \<and>
   schedule (getDayData (handleToggleTask exRender exFailed ''t1'' exDays) exToday) =
     [ blockReview,
       blockReport\<lparr> endTime := ''09:45'', isCompleted := True,
                    label := ''Write report (Done)'' \<rparr>,
       \<lparr> block_id = ''b2-buffer'', startTime = ''09:45'', endTime = ''10:30'',
         taskId = None, label = ''Efficiency Bonus'', block_type = Break,
         isCompleted = False, energyLevel = Some ELow, priority = None,
         domain = Some Routine \<rparr>,
       blockGym ] \<and>
   length (schedule (getDayData (handleToggleTask exRender exFailed ''t1'' exDays) exToday)) =
     length (schedule (getDayData (days exRender) exToday)) + 1"
proof -
  have sel: "selectedDate exRender = exToday"
    by (simp add: exRender_def)
  have now: "clock exFailed = ''09:45''"
    by (simp add: exFailed_def)
  have flag: "isNowCompleted ''t1'' (tasks (getDayData (days exRender) (selectedDate exRender)))"
    unfolding sel sample_current
    by (simp add: exDay_def isNowCompleted_def taskReport_def taskGym_def)
  have t1: "taskId blockReport = Some ''t1''"
    by (simp add: blockReport_def)
  have lo: "strLess (startTime blockReport) ''09:45''"
    by (simp add: blockReport_def)
  have hi: "strLess ''09:45'' (endTime blockReport)"
    by (simp add: blockReport_def)
  have t2: "taskId blockGym \<noteq> Some ''t1''"
    by (simp add: blockGym_def)
  have t0: "taskId blockReview \<noteq> Some ''t1''"
    by (simp add: blockReview_def)
  note inst = toggle_complete_splits [OF sample_today flag, of exFailed exDays]
  have c1: "completeBlock ''t1'' ''09:45'' blockReview = [blockReview]"
    using inst [of blockReport blockReview] t0 unfolding now by blast
  have c2: "completeBlock ''t1'' ''09:45'' blockReport =
      [ blockReport\<lparr> endTime := ''09:45'', isCompleted := True,
                     label := ''Write report (Done)'' \<rparr>,
        \<lparr> block_id = ''b2-buffer'', startTime = ''09:45'', endTime = ''10:30'',
          taskId = None, label = ''Efficiency Bonus'', block_type = Break,
          isCompleted = False, energyLevel = Some ELow, priority = None,
          domain = Some Routine \<rparr> ]"
    using inst [of blockReport blockReview] t1 lo hi unfolding now
    by (simp add: blockReport_def)
  have c3: "completeBlock ''t1'' ''09:45'' blockGym = [blockGym]"
    using inst [of blockReport blockGym] t2 unfolding now by blast
  have sch: "schedule (getDayData (handleToggleTask exRender exFailed ''t1'' exDays) exToday) =
     [ blockReview,
       blockReport\<lparr> endTime := ''09:45'', isCompleted := True,
                    label := ''Write report (Done)'' \<rparr>,
       \<lparr> block_id = ''b2-buffer'', startTime = ''09:45'', endTime = ''10:30'',
         taskId = None, label = ''Efficiency Bonus'', block_type = Break,
         isCompleted = False, energyLevel = Some ELow, priority = None,
         domain = Some Routine \<rparr>,
       blockGym ]"
    using inst [of blockReport blockReview] unfolding sel sample_current now
    by (simp add: exDay_def c1 c2 c3)
  have len: "length (schedule (getDayData (handleToggleTask exRender exFailed ''t1'' exDays)
                                 exToday)) =
     length (schedule (getDayData (days exRender) exToday)) + 1"
    unfolding sch sample_current by (simp add: exDay_def)
  show ?thesis
    using sample_today flag t1 lo hi t2 sch len
    by (intro conjI) assumption+
qed

text \<open>
  C5 asks that the completion mark be appended only when the label does not carry it
  yet. The split appends it always: a report block of 09:00-10:30 whose label is already
  "Write report (Done)", completed at 09:45, comes out labelled
  "Write report (Done) (Done)". (The truncation of the replan, by contrast, tests its
  label for the mark before appending.)
\<close>

theorem done_suffix_repeated:
  "str_includes (label blockDone) '' (Done)'' \<and>
   completeBlock ''t1'' ''09:45'' blockDone =
     [ blockDone\<lparr> endTime := ''09:45'', isCompleted := True,
                  label := ''Write report (Done) (Done)'' \<rparr>,
       \<lparr> block_id = ''b2-buffer'', startTime = ''09:45'', endTime = ''10:30'',
         taskId = None, label = ''Efficiency Bonus'', block_type = Break,
         isCompleted = False, energyLevel = Some ELow, priority = None,
         domain = Some Routine \<rparr> ] \<and>
   map label (schedule (getDayData
                (handleToggleTask doneRender exFailed ''t1'' (days doneRender)) exToday)) =
     [''Morning review'', ''Write report (Done) (Done)'', ''Efficiency Bonus'', ''Gym'']"
  by (simp add: handleToggleTask_def updateDayData_def spread_def noUpdate_def Let_def
      doneRender_def exFailed_def getDayData_def exDay_def
      isNowCompleted_def taskReport_def taskGym_def completeBlock_def strGreater_def
      blockDone_def blockReview_def blockGym_def)

section \<open>Toggling a task the day does not have\<close>

text \<open>
  C8, as the specification words it: toggling a task id that is absent from the task
  list writes back the prior tasks and the prior schedule. The schedule part fails when
  a completed block still names that id. On the sample day without the gym task (its
  only task is \<^verbatim>\<open>t1\<close>), toggling \<^verbatim>\<open>t2\<close> leaves the tasks alone and resets
  isCompleted on the gym block.
\<close>

theorem toggle_unknown_changes_schedule:
  "map task_id (tasks (getDayData (days orphanRender) exToday)) = [''t1''] \<and>
   schedule (getDayData (days orphanRender) exToday) = [blockReview, blockReport, blockGym] \<and>
   taskId blockGym = Some ''t2'' \<and> isCompleted blockGym \<and>
   tasks (getDayData (handleToggleTask orphanRender exFailed ''t2'' (days orphanRender))
            exToday) = tasks (getDayData (days orphanRender) exToday) \<and>
   schedule (getDayData (handleToggleTask orphanRender exFailed ''t2'' (days orphanRender))
               exToday) =
     [blockReview, blockReport, blockGym\<lparr> isCompleted := False \<rparr>] \<and>
   blockGym\<lparr> isCompleted := False \<rparr> \<noteq> blockGym"
  by (simp add: handleToggleTask_def updateDayData_def spread_def noUpdate_def Let_def
      orphanRender_def orphanDay_def getDayData_def exDay_def toggleTasks_def
      isNowCompleted_def taskReport_def markBlocks_def blockReview_def blockReport_def
      blockGym_def)

text \<open>
  C8, amended. Toggling a task id absent from the task list of the selected date (today
  or not) raises nothing and writes back the prior tasks; the schedule written back is
  the prior one with isCompleted cleared on every block that names that id, hence the
  prior schedule itself when no completed block names it.
\<close>

theorem toggle_unknown_task:
  assumes "list_all (\<lambda>t. task_id t \<noteq> tid) (tasks (getDayData (days r) (selectedDate r)))"
  shows "tasks (getDayData (handleToggleTask r w tid prev) (selectedDate r)) =
           tasks (getDayData (days r) (selectedDate r)) \<and>
         schedule (getDayData (handleToggleTask r w tid prev) (selectedDate r)) =
           markBlocks tid False (schedule (getDayData (days r) (selectedDate r))) \<and>
         (list_all (\<lambda>b. taskId b = Some tid \<longrightarrow> \<not> isCompleted b)
            (schedule (getDayData (days r) (selectedDate r))) \<longrightarrow>
          schedule (getDayData (handleToggleTask r w tid prev) (selectedDate r)) =
            schedule (getDayData (days r) (selectedDate r)))"
proof -
  let ?cur = "getDayData (days r) (selectedDate r)"
  let ?new = "getDayData (handleToggleTask r w tid prev) (selectedDate r)"
  have flag: "\<not> isNowCompleted tid (tasks ?cur)"
    using assms by (rule isNowCompleted_absent)
  have "tasks ?new = toggleTasks tid (tasks ?cur)"
    by (simp add: handleToggleTask_record)
  then have ts: "tasks ?new = tasks ?cur"
    using assms by (simp add: toggleTasks_absent)
  have sch: "schedule ?new = markBlocks tid False (schedule ?cur)"
    by (subst handleToggleTask_record, simp only: flag if_False if_cancel, simp)
  have "list_all (\<lambda>b. taskId b = Some tid \<longrightarrow> \<not> isCompleted b) (schedule ?cur) \<longrightarrow>
        schedule ?new = schedule ?cur"
    using markBlocks_same [of tid False "schedule ?cur"] by (simp add: sch)
  with ts sch show ?thesis by blast
qed

theorem toggle_unknown_task_witness:
  "list_all (\<lambda>t. task_id t \<noteq> ''t9'') (tasks (getDayData (days exRender) (selectedDate exRender))) \<and>
   list_all (\<lambda>b. taskId b \<noteq> Some ''t9'' \<or> \<not> isCompleted b)
     (schedule (getDayData (days exRender) (selectedDate exRender))) \<and>
   tasks (getDayData (handleToggleTask exRender exFailed ''t9'' exDays) exToday) =
     [taskReport, taskGym] \<and>
   schedule (getDayData (handleToggleTask exRender exFailed ''t9'' exDays) exToday) =
     [blockReview, blockReport, blockGym]"
proof -
  have sel: "selectedDate exRender = exToday"
    by (simp add: exRender_def)
  have absent: "list_all (\<lambda>t. task_id t \<noteq> ''t9'')
      (tasks (getDayData (days exRender) (selectedDate exRender)))"
    unfolding sel sample_current by (simp add: exDay_def taskReport_def taskGym_def)
  have free: "list_all (\<lambda>b. taskId b = Some ''t9'' \<longrightarrow> \<not> isCompleted b)
      (schedule (getDayData (days exRender) (selectedDate exRender)))"
    unfolding sel sample_current
    by (simp add: exDay_def blockReview_def blockReport_def blockGym_def)
  then have free': "list_all (\<lambda>b. taskId b \<noteq> Some ''t9'' \<or> \<not> isCompleted b)
      (schedule (getDayData (days exRender) (selectedDate exRender)))"
    by (simp add: list_all_iff)
  note inst = toggle_unknown_task [OF absent, of exFailed exDays]
  from inst
  have "tasks (getDayData (handleToggleTask exRender exFailed ''t9'' exDays)
                 (selectedDate exRender)) =
          tasks (getDayData (days exRender) (selectedDate exRender))"
    by blast
  then have ts: "tasks (getDayData (handleToggleTask exRender exFailed ''t9'' exDays) exToday) =
          [taskReport, taskGym]"
    unfolding sel sample_current by (simp add: exDay_def)
  from inst free
  have "schedule (getDayData (handleToggleTask exRender exFailed ''t9'' exDays)
                    (selectedDate exRender)) =
          schedule (getDayData (days exRender) (selectedDate exRender))"
    by blast
  then have "schedule (getDayData (handleToggleTask exRender exFailed ''t9'' exDays) exToday) =
          [blockReview, blockReport, blockGym]"
    unfolding sel sample_current by (simp add: exDay_def)
  with ts have "tasks (getDayData (handleToggleTask exRender exFailed ''t9'' exDays) exToday) =
          [taskReport, taskGym]"
    and "schedule (getDayData (handleToggleTask exRender exFailed ''t9'' exDays) exToday) =
          [blockReview, blockReport, blockGym]"
    by simp_all
  with absent free' show ?thesis by (intro conjI) assumption+
qed

section \<open>Undo\<close>

text \<open>
  C6. A replan on today's date followed by undo leaves a record whose tasks, schedule
  and explanation are the ones the replan read, and whose previousVersion is cleared; a
  second undo, with no snapshot left, returns the store unchanged. The replan may have
  succeeded or failed; the undo runs on the store the replan produced.
\<close>

theorem replan_undo_restores:
  assumes "selectedDate r = todayStr r"
  shows "\<exists>days1 days2. handleReplan r w ctx prev = Inr days1 \<and>
           handleUndo (r\<lparr> days := days1 \<rparr>) days1 = days2 \<and>
           tasks (getDayData days2 (todayStr r)) = tasks (getDayData (days r) (todayStr r)) \<and>
           schedule (getDayData days2 (todayStr r)) =
             schedule (getDayData (days r) (todayStr r)) \<and>
           explanation (getDayData days2 (todayStr r)) =
             explanation (getDayData (days r) (todayStr r)) \<and>
           previousVersion (getDayData days2 (todayStr r)) = None \<and>
           handleUndo (r\<lparr> days := days2 \<rparr>) days2 = days2"
  using assms
  by (simp add: handleReplan_today getDayData_update_same spread_def handleUndo_snapshot
      handleUndo_nothing)

theorem replan_undo_restores_witness:
  "selectedDate exRender = todayStr exRender \<and>
   (\<exists>days1 days2. handleReplan exRender exReplied None exDays = Inr days1 \<and>
      handleUndo (exRender\<lparr> days := days1 \<rparr>) days1 = days2 \<and>
      tasks (getDayData days2 exToday) = [taskReport, taskGym] \<and>
      schedule (getDayData days2 exToday) = [blockReview, blockReport, blockGym] \<and>
      explanation (getDayData days2 exToday) = ''Initial plan'' \<and>
      previousVersion (getDayData days2 exToday) = None \<and>
      handleUndo (exRender\<lparr> days := days2 \<rparr>) days2 = days2)"
proof -
  from replan_undo_restores [OF sample_today, of exReplied None exDays]
  obtain days1 days2 where h: "handleReplan exRender exReplied None exDays = Inr days1"
    "handleUndo (exRender\<lparr> days := days1 \<rparr>) days1 = days2"
    "tasks (getDayData days2 (todayStr exRender)) =
       tasks (getDayData (days exRender) (todayStr exRender))"
    "schedule (getDayData days2 (todayStr exRender)) =
       schedule (getDayData (days exRender) (todayStr exRender))"
    "explanation (getDayData days2 (todayStr exRender)) =
       explanation (getDayData (days exRender) (todayStr exRender))"
    "previousVersion (getDayData days2 (todayStr exRender)) = None"
    "handleUndo (exRender\<lparr> days := days2 \<rparr>) days2 = days2"
    by blast
  from h(3-6) have "tasks (getDayData days2 exToday) = [taskReport, taskGym]"
    and "schedule (getDayData days2 exToday) = [blockReview, blockReport, blockGym]"
    and "explanation (getDayData days2 exToday) = ''Initial plan''"
    and "previousVersion (getDayData days2 exToday) = None"
    unfolding sample_todayStr sample_current by (simp_all add: exDay_def)
  with h(1,2,7) have "\<exists>days1 days2. handleReplan exRender exReplied None exDays = Inr days1 \<and>
      handleUndo (exRender\<lparr> days := days1 \<rparr>) days1 = days2 \<and>
      tasks (getDayData days2 exToday) = [taskReport, taskGym] \<and>
      schedule (getDayData days2 exToday) = [blockReview, blockReport, blockGym] \<and>
      explanation (getDayData days2 exToday) = ''Initial plan'' \<and>
      previousVersion (getDayData days2 exToday) = None \<and>
      handleUndo (exRender\<lparr> days := days2 \<rparr>) days2 = days2"
    by (intro exI [of _ days1] exI [of _ days2] conjI)
  with sample_today show ?thesis by (intro conjI)
qed

text \<open>
  C10. Every replan on today's date, whatever the gateway answered, stores as
  previousVersion the snapshot of the tasks, schedule and explanation it read. An undo
  after it therefore gives back the record the replan read, with previousVersion
  cleared: after a failed replan this includes the future blocks that the failed replan
  left out of the schedule it wrote back.
\<close>

theorem replan_sets_snapshot:
  assumes "selectedDate r = todayStr r"
  shows "\<exists>days1. handleReplan r w ctx prev = Inr days1 \<and>
           previousVersion (getDayData days1 (todayStr r)) =
             Some \<lparr> pv_tasks = tasks (getDayData (days r) (todayStr r)),
                    pv_schedule = schedule (getDayData (days r) (todayStr r)),
                    pv_explanation = explanation (getDayData (days r) (todayStr r)) \<rparr> \<and>
           getDayData (handleUndo (r\<lparr> days := days1 \<rparr>) days1) (todayStr r) =
             (getDayData (days r) (todayStr r))\<lparr> previousVersion := None \<rparr>"
  using assms
  by (simp add: handleReplan_today getDayData_update_same spread_def handleUndo_snapshot)

theorem replan_sets_snapshot_witness:
  "selectedDate exRender = todayStr exRender \<and> reply exFailed = GatewayFailed \<and>
   (\<exists>days1. handleReplan exRender exFailed None exDays = Inr days1 \<and>
      schedule (getDayData days1 exToday) =
        [blockReview,
         blockReport\<lparr> block_id := ''b2-truncated'', endTime := ''09:45'',
                      label := ''Write report (Partial)'' \<rparr>] \<and>
      previousVersion (getDayData days1 exToday) =
        Some \<lparr> pv_tasks = [taskReport, taskGym],
               pv_schedule = [blockReview, blockReport, blockGym],
               pv_explanation = ''Initial plan'' \<rparr> \<and>
      getDayData (handleUndo (exRender\<lparr> days := days1 \<rparr>) days1) exToday = exDay)"
proof -
  have rep: "reply exFailed = GatewayFailed"
    by (simp add: exFailed_def)
  from replan_sets_snapshot [OF sample_today, of exFailed None exDays]
  obtain days1 where h: "handleReplan exRender exFailed None exDays = Inr days1"
    and pv: "previousVersion (getDayData days1 (todayStr exRender)) =
       Some \<lparr> pv_tasks = tasks (getDayData (days exRender) (todayStr exRender)),
              pv_schedule = schedule (getDayData (days exRender) (todayStr exRender)),
              pv_explanation = explanation (getDayData (days exRender) (todayStr exRender)) \<rparr>"
    and un: "getDayData (handleUndo (exRender\<lparr> days := days1 \<rparr>) days1) (todayStr exRender) =
       (getDayData (days exRender) (todayStr exRender))\<lparr> previousVersion := None \<rparr>"
    by blast
  from h have d1: "days1 = exDays(exToday \<mapsto> failedDay)"
    by (simp add: sample_failed_replan)
  have sch: "schedule (getDayData days1 exToday) =
        [blockReview,
         blockReport\<lparr> block_id := ''b2-truncated'', endTime := ''09:45'',
                      label := ''Write report (Partial)'' \<rparr>]"
    unfolding d1 by (simp add: getDayData_def failedDay_def)
  from pv have pv': "previousVersion (getDayData days1 exToday) =
        Some \<lparr> pv_tasks = [taskReport, taskGym],
               pv_schedule = [blockReview, blockReport, blockGym],
               pv_explanation = ''Initial plan'' \<rparr>"
    unfolding sample_todayStr sample_current by (simp add: exDay_def)
  from un have un': "getDayData (handleUndo (exRender\<lparr> days := days1 \<rparr>) days1) exToday = exDay"
    unfolding sample_todayStr sample_current by (simp add: exDay_def)
  from h sch pv' un'
  have "\<exists>days1. handleReplan exRender exFailed None exDays = Inr days1 \<and>
      schedule (getDayData days1 exToday) =
        [blockReview,
         blockReport\<lparr> block_id := ''b2-truncated'', endTime := ''09:45'',
                      label := ''Write report (Partial)'' \<rparr>] \<and>
      previousVersion (getDayData days1 exToday) =
        Some \<lparr> pv_tasks = [taskReport, taskGym],
               pv_schedule = [blockReview, blockReport, blockGym],
               pv_explanation = ''Initial plan'' \<rparr> \<and>
      getDayData (handleUndo (exRender\<lparr> days := days1 \<rparr>) days1) exToday = exDay"
    by (intro exI [of _ days1] conjI)
  with sample_today rep show ?thesis by (intro conjI)
qed

section \<open>The update operation of the Day Store\<close>

text \<open>
  C9, as the specification words it: every update applied through \<^verbatim>\<open>updateDayData\<close>
  leaves each field it does not name at the value the stored record had. The record that
  is merged is the one \<^verbatim>\<open>getDayData\<close> reads from the store of the handler's render. The
  replan started on \<open>exDays\<close> at 09:45 applies its update when the gateway has
  answered; if a distraction was noted in between, so that the store is \<open>newerDays\<close> by
  then, the update (which names tasks, schedule, explanation and previousVersion only)
  puts the distractions back to what they were when the replan started. A toggle that is
  called from the render of \<open>exDays\<close> once the store is \<open>newerDays\<close> (the assistant
  calls it after waiting for its own reply) does the same.
\<close>

theorem stale_render_overwrites:
  "handleReplan exRender exFailed None newerDays = Inr (newerDays(exToday \<mapsto> failedDay)) \<and>
   distractions (getDayData newerDays exToday) = Some [''check phone'', ''call the bank''] \<and>
   distractions (getDayData (newerDays(exToday \<mapsto> failedDay)) exToday) =
     Some [''check phone''] \<and>
   distractions (getDayData (handleToggleTask exRender exFailed ''t1'' newerDays) exToday) =
     Some [''check phone''] \<and>
   u_distractions (noUpdate\<lparr> u_explanation := Some ''Later'' \<rparr>) = None \<and>
   distractions (getDayData
      (updateDayData exDays exToday (noUpdate\<lparr> u_explanation := Some ''Later'' \<rparr>) newerDays)
      exToday) \<noteq> distractions (getDayData newerDays exToday)"
  by (simp add: sample_failed_replan)
     (simp add: getDayData_def newerDays_def newerDay_def failedDay_def exDay_def exDays_def
        updateDayData_def spread_def noUpdate_def handleToggleTask_def Let_def exRender_def)

text \<open>
  C9, amended. For every date, every update and every pair of stores (the one the
  handler read, the one the update is applied to): the records of all other dates are
  unchanged, and the record written for the date is the record the handler read through
  \<^verbatim>\<open>getDayData\<close> with the named fields replaced. Hence, whenever the record the handler
  read for the date equals the record stored at the moment the update is applied, each
  field the update does not name keeps its prior value. Under that same condition
  toggling a task keeps explanation, distractions, date and previousVersion, updating
  the distractions keeps tasks, schedule, explanation, date and previousVersion, and
  undo keeps date and distractions. Nothing is said of the fields when the two records
  differ, beyond their being the ones read.
\<close>

theorem updateDayData_frame:
  "(\<forall>d'. d' \<noteq> d \<longrightarrow> updateDayData seen d u prev d' = prev d') \<and>
   getDayData (updateDayData seen d u prev) d = spread (getDayData seen d) u \<and>
   (getDayData seen d = getDayData prev d \<longrightarrow>
      (u_tasks u = None \<longrightarrow>
         tasks (getDayData (updateDayData seen d u prev) d) = tasks (getDayData prev d)) \<and>
      (u_schedule u = None \<longrightarrow>
         schedule (getDayData (updateDayData seen d u prev) d) =
           schedule (getDayData prev d)) \<and>
      (u_explanation u = None \<longrightarrow>
         explanation (getDayData (updateDayData seen d u prev) d) =
           explanation (getDayData prev d)) \<and>
      (u_date u = None \<longrightarrow>
         date (getDayData (updateDayData seen d u prev) d) = date (getDayData prev d)) \<and>
      (u_distractions u = None \<longrightarrow>
         distractions (getDayData (updateDayData seen d u prev) d) =
           distractions (getDayData prev d)) \<and>
      (u_previousVersion u = None \<longrightarrow>
         previousVersion (getDayData (updateDayData seen d u prev) d) =
           previousVersion (getDayData prev d))) \<and>
   (getDayData (days r) (selectedDate r) = getDayData store (selectedDate r) \<longrightarrow>
      explanation (getDayData (handleToggleTask r w tid store) (selectedDate r)) =
        explanation (getDayData store (selectedDate r)) \<and>
      date (getDayData (handleToggleTask r w tid store) (selectedDate r)) =
        date (getDayData store (selectedDate r)) \<and>
      distractions (getDayData (handleToggleTask r w tid store) (selectedDate r)) =
        distractions (getDayData store (selectedDate r)) \<and>
      previousVersion (getDayData (handleToggleTask r w tid store) (selectedDate r)) =
        previousVersion (getDayData store (selectedDate r)) \<and>
      tasks (getDayData (handleUpdateDistractions r notes store) (selectedDate r)) =
        tasks (getDayData store (selectedDate r)) \<and>
      schedule (getDayData (handleUpdateDistractions r notes store) (selectedDate r)) =
        schedule (getDayData store (selectedDate r)) \<and>
      explanation (getDayData (handleUpdateDistractions r notes store) (selectedDate r)) =
        explanation (getDayData store (selectedDate r)) \<and>
      date (getDayData (handleUpdateDistractions r notes store) (selectedDate r)) =
        date (getDayData store (selectedDate r)) \<and>
      previousVersion (getDayData (handleUpdateDistractions r notes store) (selectedDate r)) =
        previousVersion (getDayData store (selectedDate r)) \<and>
      date (getDayData (handleUndo r store) (selectedDate r)) =
        date (getDayData store (selectedDate r)) \<and>
      distractions (getDayData (handleUndo r store) (selectedDate r)) =
        distractions (getDayData store (selectedDate r)))"
proof -
  have others: "\<forall>d'. d' \<noteq> d \<longrightarrow> updateDayData seen d u prev d' = prev d'"
    by (simp add: updateDayData_other)
  have written: "getDayData (updateDayData seen d u prev) d = spread (getDayData seen d) u"
    by (rule getDayData_update_same)
  have fields: "getDayData seen d = getDayData prev d \<longrightarrow>
      (u_tasks u = None \<longrightarrow>
         tasks (getDayData (updateDayData seen d u prev) d) = tasks (getDayData prev d)) \<and>
      (u_schedule u = None \<longrightarrow>
         schedule (getDayData (updateDayData seen d u prev) d) =
           schedule (getDayData prev d)) \<and>
      (u_explanation u = None \<longrightarrow>
         explanation (getDayData (updateDayData seen d u prev) d) =
           explanation (getDayData prev d)) \<and>
      (u_date u = None \<longrightarrow>
         date (getDayData (updateDayData seen d u prev) d) = date (getDayData prev d)) \<and>
      (u_distractions u = None \<longrightarrow>
         distractions (getDayData (updateDayData seen d u prev) d) =
           distractions (getDayData prev d)) \<and>
      (u_previousVersion u = None \<longrightarrow>
         previousVersion (getDayData (updateDayData seen d u prev) d) =
           previousVersion (getDayData prev d))"
    unfolding written by (simp add: spread_def)
  have handlers: "getDayData (days r) (selectedDate r) = getDayData store (selectedDate r) \<longrightarrow>
      explanation (getDayData (handleToggleTask r w tid store) (selectedDate r)) =
        explanation (getDayData store (selectedDate r)) \<and>
      date (getDayData (handleToggleTask r w tid store) (selectedDate r)) =
        date (getDayData store (selectedDate r)) \<and>
      distractions (getDayData (handleToggleTask r w tid store) (selectedDate r)) =
        distractions (getDayData store (selectedDate r)) \<and>
      previousVersion (getDayData (handleToggleTask r w tid store) (selectedDate r)) =
        previousVersion (getDayData store (selectedDate r)) \<and>
      tasks (getDayData (handleUpdateDistractions r notes store) (selectedDate r)) =
        tasks (getDayData store (selectedDate r)) \<and>
      schedule (getDayData (handleUpdateDistractions r notes store) (selectedDate r)) =
        schedule (getDayData store (selectedDate r)) \<and>
      explanation (getDayData (handleUpdateDistractions r notes store) (selectedDate r)) =
        explanation (getDayData store (selectedDate r)) \<and>
      date (getDayData (handleUpdateDistractions r notes store) (selectedDate r)) =
        date (getDayData store (selectedDate r)) \<and>
      previousVersion (getDayData (handleUpdateDistractions r notes store) (selectedDate r)) =
        previousVersion (getDayData store (selectedDate r)) \<and>
      date (getDayData (handleUndo r store) (selectedDate r)) =
        date (getDayData store (selectedDate r)) \<and>
      distractions (getDayData (handleUndo r store) (selectedDate r)) =
        distractions (getDayData store (selectedDate r))"
  proof
    assume same: "getDayData (days r) (selectedDate r) = getDayData store (selectedDate r)"
    show "explanation (getDayData (handleToggleTask r w tid store) (selectedDate r)) =
        explanation (getDayData store (selectedDate r)) \<and>
      date (getDayData (handleToggleTask r w tid store) (selectedDate r)) =
        date (getDayData store (selectedDate r)) \<and>
      distractions (getDayData (handleToggleTask r w tid store) (selectedDate r)) =
        distractions (getDayData store (selectedDate r)) \<and>
      previousVersion (getDayData (handleToggleTask r w tid store) (selectedDate r)) =
        previousVersion (getDayData store (selectedDate r)) \<and>
      tasks (getDayData (handleUpdateDistractions r notes store) (selectedDate r)) =
        tasks (getDayData store (selectedDate r)) \<and>
      schedule (getDayData (handleUpdateDistractions r notes store) (selectedDate r)) =
        schedule (getDayData store (selectedDate r)) \<and>
      explanation (getDayData (handleUpdateDistractions r notes store) (selectedDate r)) =
        explanation (getDayData store (selectedDate r)) \<and>
      date (getDayData (handleUpdateDistractions r notes store) (selectedDate r)) =
        date (getDayData store (selectedDate r)) \<and>
      previousVersion (getDayData (handleUpdateDistractions r notes store) (selectedDate r)) =
        previousVersion (getDayData store (selectedDate r)) \<and>
      date (getDayData (handleUndo r store) (selectedDate r)) =
        date (getDayData store (selectedDate r)) \<and>
      distractions (getDayData (handleUndo r store) (selectedDate r)) =
        distractions (getDayData store (selectedDate r))"
      unfolding handleToggleTask_record handleUpdateDistractions_record handleUndo_record same
      by (simp split: option.splits)
  qed
  from others written fields handlers show ?thesis by (intro conjI)
qed

theorem updateDayData_frame_witness:
  "getDayData exDays exToday = getDayData exDays exToday \<and>
   u_tasks (noUpdate\<lparr> u_distractions := Some (Some [''check phone'', ''mail'']) \<rparr>) = None \<and>
   tasks (getDayData
      (updateDayData exDays exToday
         (noUpdate\<lparr> u_distractions := Some (Some [''check phone'', ''mail'']) \<rparr>) exDays)
      exToday) = [taskReport, taskGym] \<and>
   ''2025-03-11'' \<noteq> exToday \<and>
   updateDayData exDays exToday
     (noUpdate\<lparr> u_distractions := Some (Some [''check phone'', ''mail'']) \<rparr>) exDays
     ''2025-03-11'' = None \<and>
   getDayData (days exRender) (selectedDate exRender) =
     getDayData exDays (selectedDate exRender) \<and>
   distractions (getDayData (handleToggleTask exRender exFailed ''t1'' exDays)
                   (selectedDate exRender)) = Some [''check phone''] \<and>
   distractions (getDayData (handleUndo exRender exDays) (selectedDate exRender)) =
     Some [''check phone'']"
proof -
  have same: "getDayData exDays exToday = getDayData exDays exToday"
    by (rule refl)
  have unnamed: "u_tasks (noUpdate\<lparr> u_distractions := Some (Some [''check phone'', ''mail'']) \<rparr>)
      = None"
    by (simp add: noUpdate_def)
  have other: "''2025-03-11'' \<noteq> exToday"
    by (simp add: exToday_def)
  have cur: "getDayData exDays exToday = exDay"
    by (simp add: exDays_def getDayData_def)
  have sel: "selectedDate exRender = exToday"
    by (simp add: exRender_def)
  have read: "getDayData (days exRender) (selectedDate exRender) =
      getDayData exDays (selectedDate exRender)"
    by (simp add: exRender_def)
  note inst = updateDayData_frame [of exToday exDays
      "noUpdate\<lparr> u_distractions := Some (Some [''check phone'', ''mail'']) \<rparr>" exDays
      exRender exDays exFailed "''t1''" "[]"]
  from inst same unnamed
  have "tasks (getDayData
      (updateDayData exDays exToday
         (noUpdate\<lparr> u_distractions := Some (Some [''check phone'', ''mail'']) \<rparr>) exDays)
      exToday) = tasks (getDayData exDays exToday)"
    by blast
  then have ts: "tasks (getDayData
      (updateDayData exDays exToday
         (noUpdate\<lparr> u_distractions := Some (Some [''check phone'', ''mail'']) \<rparr>) exDays)
      exToday) = [taskReport, taskGym]"
    unfolding cur by (simp add: exDay_def)
  from inst other
  have "updateDayData exDays exToday
     (noUpdate\<lparr> u_distractions := Some (Some [''check phone'', ''mail'']) \<rparr>) exDays
     ''2025-03-11'' = exDays ''2025-03-11''"
    by blast
  then have od: "updateDayData exDays exToday
     (noUpdate\<lparr> u_distractions := Some (Some [''check phone'', ''mail'']) \<rparr>) exDays
     ''2025-03-11'' = None"
    by (simp add: exDays_def exToday_def)
  from inst read
  have "distractions (getDayData (handleToggleTask exRender exFailed ''t1'' exDays)
                        (selectedDate exRender)) =
        distractions (getDayData exDays (selectedDate exRender))"
    and "distractions (getDayData (handleUndo exRender exDays) (selectedDate exRender)) =
        distractions (getDayData exDays (selectedDate exRender))"
    by blast+
  then have ds: "distractions (getDayData (handleToggleTask exRender exFailed ''t1'' exDays)
                   (selectedDate exRender)) = Some [''check phone'']"
    and un: "distractions (getDayData (handleUndo exRender exDays) (selectedDate exRender)) =
        Some [''check phone'']"
    unfolding sel cur by (simp_all add: exDay_def)
  show ?thesis
    using same unnamed ts other od read ds un by (intro conjI) assumption+
qed

section \<open>Clock strings compare as times\<close>

text \<open>
  C7. For two well-formed clock strings \<open>s\<close> and \<open>t\<close> (two-digit hours 00-23, two-digit
  minutes 00-59), \<^verbatim>\<open>getMinutes\<close> is the minute offset \<open>HH * 60 + MM\<close>, and the string
  comparisons of the handlers agree with the comparison of these numbers: \<^verbatim>\<open>s <= t\<close>
  exactly when the minutes of \<open>s\<close> are at most those of \<open>t\<close>, \<^verbatim>\<open>s < t\<close> exactly when
  they are fewer, \<^verbatim>\<open>s > t\<close> exactly when they are more. Hence, on a block with
  well-formed times and at a well-formed current time \<open>s\<close>, the replan partition and the
  split of the reconciler decide by the numbers: the tests of \<^verbatim>\<open>pastPart\<close> and of
  \<^verbatim>\<open>completeBlock\<close> can be read as comparisons of minute offsets.
\<close>

theorem time_order_agrees:
  assumes "wfTime s" and "wfTime t"
  shows "getMinutes s = Some (minuteOfDay s) \<and>
         getMinutes t = Some (minuteOfDay t) \<and>
         minuteOfDay s = hoursOf s * 60 + minutesOf s \<and>
         strLessEq s t = (minuteOfDay s \<le> minuteOfDay t) \<and>
         strLess s t = (minuteOfDay s < minuteOfDay t) \<and>
         strGreater s t = (minuteOfDay s > minuteOfDay t) \<and>
         (wfTime (startTime b) \<and> wfTime (endTime b) \<longrightarrow>
            pastPart s b =
              (if minuteOfDay (endTime b) \<le> minuteOfDay s then [b]
               else if minuteOfDay (startTime b) < minuteOfDay s \<and>
                       minuteOfDay s < minuteOfDay (endTime b)
               then [truncated s b] else []) \<and>
            length (completeBlock tid s b) =
              (if taskId b = Some tid \<and> minuteOfDay (startTime b) < minuteOfDay s \<and>
                  minuteOfDay s < minuteOfDay (endTime b)
               then 2 else 1))"
proof -
  have gr: "strGreater s t = (minuteOfDay s > minuteOfDay t)"
    unfolding strGreater_def by (rule clock_order [OF assms(2) assms(1)])
  have blocks: "wfTime (startTime b) \<and> wfTime (endTime b) \<longrightarrow>
            pastPart s b =
              (if minuteOfDay (endTime b) \<le> minuteOfDay s then [b]
               else if minuteOfDay (startTime b) < minuteOfDay s \<and>
                       minuteOfDay s < minuteOfDay (endTime b)
               then [truncated s b] else []) \<and>
            length (completeBlock tid s b) =
              (if taskId b = Some tid \<and> minuteOfDay (startTime b) < minuteOfDay s \<and>
                  minuteOfDay s < minuteOfDay (endTime b)
               then 2 else 1)"
  proof
    assume wf: "wfTime (startTime b) \<and> wfTime (endTime b)"
    then have st: "wfTime (startTime b)" and en: "wfTime (endTime b)" by simp_all
    have past: "pastPart s b =
              (if minuteOfDay (endTime b) \<le> minuteOfDay s then [b]
               else if minuteOfDay (startTime b) < minuteOfDay s \<and>
                       minuteOfDay s < minuteOfDay (endTime b)
               then [truncated s b] else [])"
      unfolding pastPart_def strGreater_def clock_order_le [OF en assms(1)]
        clock_order [OF st assms(1)] clock_order [OF assms(1) en]
      by (rule refl)
    have split: "length (completeBlock tid s b) =
              (if taskId b = Some tid \<and> minuteOfDay (startTime b) < minuteOfDay s \<and>
                  minuteOfDay s < minuteOfDay (endTime b)
               then 2 else 1)"
      unfolding completeBlock_length clock_order [OF st assms(1)] clock_order [OF assms(1) en]
      by (rule refl)
    from past split show "pastPart s b =
              (if minuteOfDay (endTime b) \<le> minuteOfDay s then [b]
               else if minuteOfDay (startTime b) < minuteOfDay s \<and>
                       minuteOfDay s < minuteOfDay (endTime b)
               then [truncated s b] else []) \<and>
            length (completeBlock tid s b) =
              (if taskId b = Some tid \<and> minuteOfDay (startTime b) < minuteOfDay s \<and>
                  minuteOfDay s < minuteOfDay (endTime b)
               then 2 else 1)"
      by (rule conjI)
  qed
  show ?thesis
    using getMinutes_wf [OF assms(1)] getMinutes_wf [OF assms(2)] minuteOfDay_def [of s]
      clock_order_le [OF assms] clock_order [OF assms] gr blocks
    by (intro conjI) assumption+
qed

theorem time_order_agrees_witness:
  "wfTime ''09:45'' \<and> wfTime ''10:30'' \<and>
   getMinutes ''09:45'' = Some 585 \<and> getMinutes ''10:30'' = Some 630 \<and>
   strLessEq ''09:45'' ''10:30'' \<and> strLess ''09:45'' ''10:30'' \<and>
   \<not> strGreater ''09:45'' ''10:30'' \<and>
   wfTime (startTime blockReport) \<and> wfTime (endTime blockReport) \<and>
   pastPart ''09:45'' blockReport = [truncated ''09:45'' blockReport] \<and>
   length (completeBlock ''t1'' ''09:45'' blockReport) = 2"
proof -
  have w1: "wfTime ''09:45''"
    by (simp add: wfTime_def isDigit_def hoursOf_def minutesOf_def digitVal_def)
  have w2: "wfTime ''10:30''"
    by (simp add: wfTime_def isDigit_def hoursOf_def minutesOf_def digitVal_def)
  have w3: "wfTime (startTime blockReport)"
    by (simp add: blockReport_def wfTime_def isDigit_def hoursOf_def minutesOf_def digitVal_def)
  have w4: "wfTime (endTime blockReport)"
    by (simp add: blockReport_def wfTime_def isDigit_def hoursOf_def minutesOf_def digitVal_def)
  have m1: "minuteOfDay ''09:45'' = 585"
    by (simp add: minuteOfDay_def hoursOf_def minutesOf_def digitVal_def)
  have m2: "minuteOfDay ''10:30'' = 630"
    by (simp add: minuteOfDay_def hoursOf_def minutesOf_def digitVal_def)
  have m3: "minuteOfDay (startTime blockReport) = 540"
    by (simp add: blockReport_def minuteOfDay_def hoursOf_def minutesOf_def digitVal_def)
  have m4: "minuteOfDay (endTime blockReport) = 630"
    by (simp add: blockReport_def minuteOfDay_def hoursOf_def minutesOf_def digitVal_def)
  have t1: "taskId blockReport = Some ''t1''"
    by (simp add: blockReport_def)
  note inst = time_order_agrees [OF w1 w2, of blockReport "''t1''", unfolded m1 m2 m3 m4]
  from inst w3 w4 t1
  have "getMinutes ''09:45'' = Some 585" and "getMinutes ''10:30'' = Some 630"
    and "strLessEq ''09:45'' ''10:30''" and "strLess ''09:45'' ''10:30''"
    and "\<not> strGreater ''09:45'' ''10:30''"
    and "pastPart ''09:45'' blockReport = [truncated ''09:45'' blockReport]"
    and "length (completeBlock ''t1'' ''09:45'' blockReport) = 2"
    by simp_all
  with w1 w2 w3 w4 show ?thesis by (intro conjI)
qed

end
